theory Spec2Isabelle
  imports Complex_Main "HOL-Library.Word"
begin

section \<open>Trajectory cost of the DP road graph (trajectory\_cost.cc)\<close>

text \<open>
  A shallow embedding of \<^verbatim>\<open>modules/planning/tasks/optimizers/road_graph/trajectory_cost.cc\<close>.

  Numbers. A C++ \<^verbatim>\<open>double\<close> is modelled as a \<^typ>\<open>real\<close>: the arithmetic is the exact
  one, so rounding, infinities and NaN are outside the model. Where the exact operation of HOL
  and the C++ operation differ on an input the code can receive, the difference is written
  into the model (a division by zero in the constructor) or, for \<^verbatim>\<open>std::sqrt\<close> of a negative
  number, excluded by a hypothesis of every statement about the value that depends on it (the
  smoothness cost on the terminal level). \<^verbatim>\<open>uint32_t\<close> is \<^typ>\<open>32 word\<close>; the
  \<^verbatim>\<open>size_t\<close> loop index of the dynamic cost never exceeds a \<^verbatim>\<open>uint32_t\<close> bound and
  is a \<^typ>\<open>nat\<close>.

  Results. A loop whose counter is a \<^verbatim>\<open>double\<close> stepped by a configured resolution
  may run forever; such loops are \<^theory_text>\<open>partial_function (option)\<close> and \<open>None\<close> means
  that the call does not return. \<^verbatim>\<open>std::vector::at\<close> throws, which is the value
  \<open>Inl OutOfRange\<close>.
\<close>

subsection \<open>Data\<close>

record SLPoint =
  pt_s :: real
  pt_l :: real

record SLBoundary =
  bnd_start_s :: real
  bnd_end_s :: real
  bnd_start_l :: real
  bnd_end_l :: real

record Vec2d =
  vec_x :: real
  vec_y :: real

text \<open>\<^verbatim>\<open>Box2d(center, heading, length, width)\<close>: the four constructor arguments.\<close>

record Box2d =
  box_center :: Vec2d
  box_heading :: real
  box_length :: real
  box_width :: real

record VehicleParam =
  front_edge_to_center :: real
  back_edge_to_center :: real
  left_edge_to_center :: real
  right_edge_to_center :: real
  vp_length :: real
  vp_width :: real

text \<open>The fields of \<^verbatim>\<open>DpPolyPathConfig\<close> that the file reads.\<close>

record DpPolyPathConfig =
  eval_time_interval :: real
  path_resolution :: real
  path_l_cost :: real
  path_dl_cost :: real
  path_ddl_cost :: real
  path_l_cost_param_l0 :: real
  path_l_cost_param_b :: real
  path_l_cost_param_k :: real
  path_end_l_cost :: real
  obstacle_ignore_distance :: real
  obstacle_collision_cost :: real
  obstacle_collision_distance :: real
  obstacle_risk_distance :: real

text \<open>
  Modelled from the spec: the type \<^verbatim>\<open>ComparableCost\<close> (comparable\_cost.h is not under
  src/). The spec gives it two flags and two scalars; the source writes
  \<^verbatim>\<open>cost_items[HAS_COLLISION]\<close>, \<^verbatim>\<open>cost_items[OUT_OF_BOUNDARY]\<close>,
  \<^verbatim>\<open>smoothness_cost\<close> and \<^verbatim>\<open>safety_cost\<close>. A default-constructed cost has both flags
  clear and both scalars zero.
\<close>

record ComparableCost =
  has_collision :: bool
  out_of_boundary :: bool
  smoothness_cost :: real
  safety_cost :: real

definition ComparableCost_default :: ComparableCost where
  "ComparableCost_default =
     \<lparr>has_collision = False, out_of_boundary = False, smoothness_cost = 0, safety_cost = 0\<rparr>"

text \<open>
  Modelled from the spec: \<^verbatim>\<open>ComparableCost::operator+=\<close> (not under src/). ``Two costs
  combine by logical-OR on flags and arithmetic sum on scalars.''
\<close>

definition cost_add :: "ComparableCost \<Rightarrow> ComparableCost \<Rightarrow> ComparableCost" where
  "cost_add a b =
     \<lparr>has_collision = (has_collision a \<or> has_collision b),
      out_of_boundary = (out_of_boundary a \<or> out_of_boundary b),
      smoothness_cost = smoothness_cost a + smoothness_cost b,
      safety_cost = safety_cost a + safety_cost b\<rparr>"

text \<open>
  Modelled from the spec: the comparison of \<^verbatim>\<open>ComparableCost\<close> (not under src/).
  ``Total order is lexicographic: \<open>has_collision\<close> dominates \<open>out_of_boundary\<close>, which
  dominates the scalar sum \<open>smoothness_cost + safety_cost\<close>.'' \<open>cost_worse a b\<close> says
  that \<open>a\<close> compares worse (greater) than \<open>b\<close>.
\<close>

definition cost_worse :: "ComparableCost \<Rightarrow> ComparableCost \<Rightarrow> bool" where
  "cost_worse a b =
     (if has_collision a \<noteq> has_collision b then has_collision a
      else if out_of_boundary a \<noteq> out_of_boundary b then out_of_boundary a
      else smoothness_cost a + safety_cost a > smoothness_cost b + safety_cost b)"

definition cost_equiv :: "ComparableCost \<Rightarrow> ComparableCost \<Rightarrow> bool" where
  "cost_equiv a b =
     (has_collision a = has_collision b \<and> out_of_boundary a = out_of_boundary b \<and>
      smoothness_cost a + safety_cost a = smoothness_cost b + safety_cost b)"

text \<open>
  The collaborators the engine borrows. Their code is not under src/, so each is the record of
  the methods that trajectory\_cost.cc calls. A method that returns \<^verbatim>\<open>bool\<close> and writes
  through an out-parameter is an \<open>option\<close>: on \<open>None\<close> the out-parameter keeps the value it
  had before the call.
\<close>

record ReferencePoint =
  ref_heading :: real
  ref_kappa :: real

record ReferenceLine =
  GetLaneWidth :: "real \<Rightarrow> (real \<times> real) option"
  SLToXY :: "SLPoint \<Rightarrow> Vec2d option"
  GetReferencePoint :: "real \<Rightarrow> ReferencePoint"

record SpeedPoint =
  speed_s :: real
  speed_t :: real
  speed_v :: real

record SpeedData =
  TotalTime :: real
  EvaluateByTime :: "real \<Rightarrow> SpeedPoint option"

record TrajectoryPoint =
  tp_x :: real
  tp_y :: real
  tp_theta :: real
  tp_relative_time :: real

datatype PerceptionType =
  UNKNOWN | UNKNOWN_MOVABLE | UNKNOWN_UNMOVABLE | PEDESTRIAN | BICYCLE | VEHICLE

record Obstacle =
  IsIgnore :: bool
  LongitudinalDecision_has_stop :: bool
  PerceptionSLBoundary :: SLBoundary
  Perception_type :: PerceptionType
  IsVirtual :: bool
  IsStatic :: bool
  GetPointAtTime :: "real \<Rightarrow> TrajectoryPoint"
  GetBoundingBox :: "TrajectoryPoint \<Rightarrow> Box2d"

text \<open>
  \<^verbatim>\<open>QuinticPolynomialCurve1d\<close> is used through \<^verbatim>\<open>Evaluate(order, param)\<close> only: a curve is
  that function.
\<close>

type_synonym QuinticPolynomialCurve1d = "nat \<Rightarrow> real \<Rightarrow> real"

text \<open>
  What the file takes from outside the class: two gflags, the global vehicle configuration
  (\<^verbatim>\<open>VehicleConfigHelper::GetConfig().vehicle_param()\<close>), and the library functions
  \<^verbatim>\<open>Sigmoid\<close>, \<^verbatim>\<open>NormalizeAngle\<close> and \<^verbatim>\<open>Box2d::DistanceTo\<close>, none of them under src/.
\<close>

record Globals =
  FLAGS_prediction_total_time :: real
  FLAGS_lateral_ignore_buffer :: real
  VehicleConfigHelper_vehicle_param :: VehicleParam
  Sigmoid :: "real \<Rightarrow> real"
  NormalizeAngle :: "real \<Rightarrow> real"
  DistanceTo :: "Box2d \<Rightarrow> Box2d \<Rightarrow> real"

text \<open>The members of the class \<^verbatim>\<open>TrajectoryCost\<close>; the member \<^verbatim>\<open>name_\<close> of the source is \<open>tc_name\<close>.\<close>

record TrajectoryCost =
  tc_config :: DpPolyPathConfig
  tc_reference_line :: ReferenceLine
  tc_is_change_lane_path :: bool
  tc_vehicle_param :: VehicleParam
  tc_heuristic_speed_data :: SpeedData
  tc_init_sl_point :: SLPoint
  tc_adc_sl_boundary :: SLBoundary
  tc_num_of_time_stamps :: "32 word"
  tc_static_obstacle_sl_boundaries :: "SLBoundary list"
  tc_dynamic_obstacle_boxes :: "Box2d list list"

datatype error = OutOfRange

subsection \<open>Penalty helpers\<close>

text \<open>\<^verbatim>\<open>TrajectoryCost::GetCostFromObsSL\<close>, lines 264 to 317.\<close>

definition GetCostFromObsSL ::
  "TrajectoryCost \<Rightarrow> Globals \<Rightarrow> real \<Rightarrow> real \<Rightarrow> SLBoundary \<Rightarrow> ComparableCost" where
  "GetCostFromObsSL tc g adc_s adc_l obs_sl_boundary =
     (let vehicle_param = VehicleConfigHelper_vehicle_param g;
          obstacle_cost = ComparableCost_default
      in
      if bnd_start_l obs_sl_boundary * bnd_end_l obs_sl_boundary \<le> 0 then obstacle_cost
      else
        let adc_front_s = adc_s + front_edge_to_center vehicle_param;
            adc_end_s = adc_s - back_edge_to_center vehicle_param;
            adc_left_l = adc_l + left_edge_to_center vehicle_param;
            adc_right_l = adc_l - right_edge_to_center vehicle_param
        in
        if adc_left_l + FLAGS_lateral_ignore_buffer g < bnd_start_l obs_sl_boundary \<or>
           adc_right_l - FLAGS_lateral_ignore_buffer g > bnd_end_l obs_sl_boundary
        then obstacle_cost
        else
          let no_overlap =
                ((adc_front_s < bnd_start_s obs_sl_boundary \<or>
                  adc_end_s > bnd_end_s obs_sl_boundary) \<or>
                 (adc_left_l + 0.1 < bnd_start_l obs_sl_boundary \<or>
                  adc_right_l - 0.1 > bnd_end_l obs_sl_boundary));
              obstacle_cost =
                (if \<not> no_overlap then obstacle_cost\<lparr>has_collision := True\<rparr>
                 else obstacle_cost)
          in
          if adc_front_s > bnd_end_s obs_sl_boundary then obstacle_cost
          else
            let delta_l = max (adc_right_l - bnd_end_l obs_sl_boundary)
                              (bnd_start_l obs_sl_boundary - adc_left_l);
                kSafeDistance = 0.6
            in
            if delta_l < kSafeDistance then
              obstacle_cost\<lparr>safety_cost := safety_cost obstacle_cost +
                obstacle_collision_cost (tc_config tc) *
                Sigmoid g (obstacle_collision_distance (tc_config tc) - delta_l)\<rparr>
            else obstacle_cost)"

text \<open>\<^verbatim>\<open>TrajectoryCost::GetCostBetweenObsBoxes\<close>, lines 323 to 338.\<close>

definition GetCostBetweenObsBoxes ::
  "TrajectoryCost \<Rightarrow> Globals \<Rightarrow> Box2d \<Rightarrow> Box2d \<Rightarrow> ComparableCost" where
  "GetCostBetweenObsBoxes tc g ego_box obstacle_box =
     (let obstacle_cost = ComparableCost_default;
          distance = DistanceTo g obstacle_box ego_box
      in
      if distance > obstacle_ignore_distance (tc_config tc) then obstacle_cost
      else
        let obstacle_cost = obstacle_cost\<lparr>safety_cost := safety_cost obstacle_cost +
              obstacle_collision_cost (tc_config tc) *
              Sigmoid g (obstacle_collision_distance (tc_config tc) - distance)\<rparr>;
            obstacle_cost = obstacle_cost\<lparr>safety_cost := safety_cost obstacle_cost +
              20.0 * Sigmoid g (obstacle_risk_distance (tc_config tc) - distance)\<rparr>
        in obstacle_cost)"

subsection \<open>Smoothness and boundary cost\<close>

text \<open>
  Modelled from the spec: \<^verbatim>\<open>Vec2d::rotate\<close> and \<^verbatim>\<open>Vec2d::operator+\<close> (vec2d.h is not
  under src/). The spec has ``an offset rotated by \<open>atan(dl)\<close>'': the rotation of the plane by
  the angle, and the sum of vectors.
\<close>

definition Vec2d_rotate :: "Vec2d \<Rightarrow> real \<Rightarrow> Vec2d" where
  "Vec2d_rotate v angle =
     \<lparr>vec_x = vec_x v * cos angle - vec_y v * sin angle,
      vec_y = vec_x v * sin angle + vec_y v * cos angle\<rparr>"

definition Vec2d_plus :: "Vec2d \<Rightarrow> Vec2d \<Rightarrow> Vec2d" where
  "Vec2d_plus a b = \<lparr>vec_x = vec_x a + vec_x b, vec_y = vec_y a + vec_y b\<rparr>"

text \<open>\<^verbatim>\<open>TrajectoryCost::IsOffRoad\<close>, lines 153 to 193.\<close>

definition IsOffRoad ::
  "TrajectoryCost \<Rightarrow> Globals \<Rightarrow> real \<Rightarrow> real \<Rightarrow> real \<Rightarrow> bool \<Rightarrow> bool" where
  "IsOffRoad tc g ref_s l dl is_change_lane_path =
     (let kIgnoreDistance = 5.0 in
      if ref_s - pt_s (tc_init_sl_point tc) < kIgnoreDistance then False
      else
        let rear_center = \<lparr>vec_x = 0, vec_y = l\<rparr>;
            param = VehicleConfigHelper_vehicle_param g;
            vec_to_center =
              \<lparr>vec_x = (front_edge_to_center param - back_edge_to_center param) / 2,
               vec_y = (left_edge_to_center param - right_edge_to_center param) / 2\<rparr>;
            rear_center_to_center = Vec2d_rotate vec_to_center (arctan dl);
            center = Vec2d_plus rear_center rear_center_to_center;
            front_center = Vec2d_plus center rear_center_to_center;
            buffer = 0.1;
            r_w = (left_edge_to_center param + right_edge_to_center param) / 2;
            r_l = back_edge_to_center param;
            r = sqrt (r_w * r_w + r_l * r_l);
            (left_width, right_width) =
              (case GetLaneWidth (tc_reference_line tc) ref_s of
                 None \<Rightarrow> (0, 0) | Some w \<Rightarrow> w);
            left_bound = max (pt_l (tc_init_sl_point tc) + r + buffer) left_width;
            right_bound = min (pt_l (tc_init_sl_point tc) - r - buffer) (- right_width)
        in
        if vec_y rear_center + r + buffer / 2 > left_bound \<or>
           vec_y rear_center - r - buffer / 2 < right_bound then True
        else if vec_y front_center + r + buffer / 2 > left_bound \<or>
                vec_y front_center - r - buffer / 2 < right_bound then True
        else False)"

text \<open>The lambda \<^verbatim>\<open>quasi_softmax\<close> of \<^verbatim>\<open>CalculatePathCost\<close>, lines 111 to 119.\<close>

definition quasi_softmax :: "TrajectoryCost \<Rightarrow> real \<Rightarrow> real" where
  "quasi_softmax tc x =
     (let l0 = path_l_cost_param_l0 (tc_config tc);
          b = path_l_cost_param_b (tc_config tc);
          k = path_l_cost_param_k (tc_config tc)
      in (b + exp (- k * (x - l0))) / (1 + exp (- k * (x - l0))))"

text \<open>
  The body of the loop of \<^verbatim>\<open>CalculatePathCost\<close>, lines 123 to 138, on the pair of the
  locals \<^verbatim>\<open>cost\<close> and \<^verbatim>\<open>path_cost\<close>.
\<close>

definition CalculatePathCost_body ::
  "TrajectoryCost \<Rightarrow> Globals \<Rightarrow> QuinticPolynomialCurve1d \<Rightarrow> real \<Rightarrow> real \<Rightarrow>
   ComparableCost \<times> real \<Rightarrow> ComparableCost \<times> real" where
  "CalculatePathCost_body tc g curve start_s curve_s st =
     (let cost = fst st;
          path_cost = snd st;
          l = curve 0 curve_s;
          path_cost = path_cost + l * l * path_l_cost (tc_config tc) * quasi_softmax tc \<bar>l\<bar>;
          dl = \<bar>curve 1 curve_s\<bar>;
          cost = (if IsOffRoad tc g (curve_s + start_s) l dl (tc_is_change_lane_path tc)
                  then cost\<lparr>out_of_boundary := True\<rparr> else cost);
          path_cost = path_cost + dl * dl * path_dl_cost (tc_config tc);
          ddl = \<bar>curve 2 curve_s\<bar>;
          path_cost = path_cost + ddl * ddl * path_ddl_cost (tc_config tc)
      in (cost, path_cost))"

text \<open>
  The loop \<^verbatim>\<open>for (double curve_s = 0.0; curve_s < (end_s - start_s); curve_s +=
  config_.path_resolution())\<close>, line 121. With a resolution that is not positive it does not
  end.
\<close>

partial_function (option) CalculatePathCost_loop ::
  "TrajectoryCost \<Rightarrow> Globals \<Rightarrow> QuinticPolynomialCurve1d \<Rightarrow> real \<Rightarrow> real \<Rightarrow> real \<Rightarrow>
   ComparableCost \<times> real \<Rightarrow> (ComparableCost \<times> real) option" where
  "CalculatePathCost_loop tc g curve start_s end_s curve_s st =
     (if curve_s < end_s - start_s then
        CalculatePathCost_loop tc g curve start_s end_s
          (curve_s + path_resolution (tc_config tc))
          (CalculatePathCost_body tc g curve start_s curve_s st)
      else Some st)"

text \<open>
  \<^verbatim>\<open>TrajectoryCost::CalculatePathCost\<close>, lines 106 to 149. \<^verbatim>\<open>std::sqrt\<close> is \<^const>\<open>sqrt\<close>
  where its argument \<open>end_l - init_l / 2\<close> is not negative. On a negative argument the C++
  function gives NaN, which no \<^typ>\<open>real\<close> is: on the terminal level with
  \<open>end_l < init_l / 2\<close> the field \<open>smoothness_cost\<close> of the result below is not the value
  of the code (the flags and \<open>safety_cost\<close> are), and the statements about that field assume
  \<open>0 \<le> end_l - init_l / 2\<close> there.
\<close>

definition CalculatePathCost ::
  "TrajectoryCost \<Rightarrow> Globals \<Rightarrow> QuinticPolynomialCurve1d \<Rightarrow> real \<Rightarrow> real \<Rightarrow>
   32 word \<Rightarrow> 32 word \<Rightarrow> ComparableCost option" where
  "CalculatePathCost tc g curve start_s end_s curr_level total_level =
     (case CalculatePathCost_loop tc g curve start_s end_s 0 (ComparableCost_default, 0) of
        None \<Rightarrow> None
      | Some st \<Rightarrow>
          let cost = fst st;
              path_cost = snd st;
              path_cost = path_cost * path_resolution (tc_config tc);
              path_cost =
                (if curr_level = total_level then
                   let end_l = curve 0 (end_s - start_s)
                   in path_cost +
                      sqrt (end_l - pt_l (tc_init_sl_point tc) / 2) *
                      path_end_l_cost (tc_config tc)
                 else path_cost)
          in Some (cost\<lparr>smoothness_cost := path_cost\<rparr>))"

subsection \<open>Static obstacle cost\<close>

text \<open>The inner loop over \<^verbatim>\<open>static_obstacle_sl_boundaries_\<close>, lines 208 to 211.\<close>

fun CalculateStaticObstacleCost_inner ::
  "TrajectoryCost \<Rightarrow> Globals \<Rightarrow> real \<Rightarrow> real \<Rightarrow> SLBoundary list \<Rightarrow>
   ComparableCost \<Rightarrow> ComparableCost" where
  "CalculateStaticObstacleCost_inner tc g curr_s curr_l [] obstacle_cost = obstacle_cost"
| "CalculateStaticObstacleCost_inner tc g curr_s curr_l (obs_sl_boundary # rest) obstacle_cost =
     CalculateStaticObstacleCost_inner tc g curr_s curr_l rest
       (cost_add obstacle_cost (GetCostFromObsSL tc g curr_s curr_l obs_sl_boundary))"

text \<open>
  The loop \<^verbatim>\<open>for (double curr_s = start_s; curr_s <= end_s; curr_s +=
  config_.path_resolution())\<close>, lines 205 to 212.
\<close>

partial_function (option) CalculateStaticObstacleCost_loop ::
  "TrajectoryCost \<Rightarrow> Globals \<Rightarrow> QuinticPolynomialCurve1d \<Rightarrow> real \<Rightarrow> real \<Rightarrow> real \<Rightarrow>
   ComparableCost \<Rightarrow> ComparableCost option" where
  "CalculateStaticObstacleCost_loop tc g curve start_s end_s curr_s obstacle_cost =
     (if curr_s \<le> end_s then
        CalculateStaticObstacleCost_loop tc g curve start_s end_s
          (curr_s + path_resolution (tc_config tc))
          (CalculateStaticObstacleCost_inner tc g curr_s (curve 0 (curr_s - start_s))
             (tc_static_obstacle_sl_boundaries tc) obstacle_cost)
      else Some obstacle_cost)"

text \<open>\<^verbatim>\<open>TrajectoryCost::CalculateStaticObstacleCost\<close>, lines 200 to 215.\<close>

definition CalculateStaticObstacleCost ::
  "TrajectoryCost \<Rightarrow> Globals \<Rightarrow> QuinticPolynomialCurve1d \<Rightarrow> real \<Rightarrow> real \<Rightarrow>
   ComparableCost option" where
  "CalculateStaticObstacleCost tc g curve start_s end_s =
     (case CalculateStaticObstacleCost_loop tc g curve start_s end_s start_s
             ComparableCost_default of
        None \<Rightarrow> None
      | Some obstacle_cost \<Rightarrow>
          Some (obstacle_cost\<lparr>safety_cost :=
                  safety_cost obstacle_cost * path_resolution (tc_config tc)\<rparr>))"

subsection \<open>Dynamic obstacle cost\<close>

text \<open>\<^verbatim>\<open>std::atan2(y, x)\<close> of the C library, by the quadrant of \<open>(x, y)\<close>.\<close>

definition std_atan2 :: "real \<Rightarrow> real \<Rightarrow> real" where
  "std_atan2 y x =
     (if x > 0 then arctan (y / x)
      else if x < 0 then (if y \<ge> 0 then arctan (y / x) + pi else arctan (y / x) - pi)
      else if y > 0 then pi / 2
      else if y < 0 then - pi / 2
      else 0)"

text \<open>
  \<^verbatim>\<open>TrajectoryCost::GetBoxFromSLPoint\<close>, lines 343 to 356. A default-constructed
  \<^verbatim>\<open>Vec2d\<close> is the origin.
\<close>

definition GetBoxFromSLPoint :: "TrajectoryCost \<Rightarrow> Globals \<Rightarrow> SLPoint \<Rightarrow> real \<Rightarrow> Box2d" where
  "GetBoxFromSLPoint tc g sl dl =
     (let xy_point =
            (case SLToXY (tc_reference_line tc) sl of
               None \<Rightarrow> \<lparr>vec_x = 0, vec_y = 0\<rparr> | Some p \<Rightarrow> p);
          reference_point = GetReferencePoint (tc_reference_line tc) (pt_s sl);
          one_minus_kappa_r_d = 1 - ref_kappa reference_point * pt_l sl;
          delta_theta = std_atan2 dl one_minus_kappa_r_d;
          theta = NormalizeAngle g (delta_theta + ref_heading reference_point)
      in \<lparr>box_center = xy_point, box_heading = theta,
          box_length = vp_length (tc_vehicle_param tc),
          box_width = vp_width (tc_vehicle_param tc)\<rparr>)"

text \<open>\<^verbatim>\<open>std::vector::at\<close>: the element, or the exception \<^verbatim>\<open>std::out_of_range\<close>.\<close>

definition vector_at :: "'a list \<Rightarrow> nat \<Rightarrow> error + 'a" where
  "vector_at xs i = (if i < length xs then Inr (xs ! i) else Inl OutOfRange)"

text \<open>
  The inner loop over \<^verbatim>\<open>dynamic_obstacle_boxes_\<close>, lines 250 to 252: every trajectory is
  read at the index of the outer loop.
\<close>

fun CalculateDynamicObstacleCost_inner ::
  "TrajectoryCost \<Rightarrow> Globals \<Rightarrow> Box2d \<Rightarrow> nat \<Rightarrow> Box2d list list \<Rightarrow>
   ComparableCost \<Rightarrow> error + ComparableCost" where
  "CalculateDynamicObstacleCost_inner tc g ego_box index [] obstacle_cost = Inr obstacle_cost"
| "CalculateDynamicObstacleCost_inner tc g ego_box index (obstacle_trajectory # rest)
     obstacle_cost =
     (case vector_at obstacle_trajectory index of
        Inl e \<Rightarrow> Inl e
      | Inr obstacle_box \<Rightarrow>
          CalculateDynamicObstacleCost_inner tc g ego_box index rest
            (cost_add obstacle_cost (GetCostBetweenObsBoxes tc g ego_box obstacle_box)))"

text \<open>
  \<^verbatim>\<open>speed_point.s()\<close> after \<^verbatim>\<open>heuristic_speed_data_.EvaluateByTime(time_stamp,
  &speed_point)\<close>, whose return value the source drops: a default-constructed
  \<^verbatim>\<open>SpeedPoint\<close> has \<open>s = 0\<close>.
\<close>

definition speed_point_s :: "TrajectoryCost \<Rightarrow> real \<Rightarrow> real" where
  "speed_point_s tc time_stamp =
     (case EvaluateByTime (tc_heuristic_speed_data tc) time_stamp of
        None \<Rightarrow> 0 | Some speed_point \<Rightarrow> speed_s speed_point)"

text \<open>
  The loop \<^verbatim>\<open>for (size_t index = 0; index < num_of_time_stamps_; ++index, time_stamp +=
  config_.eval_time_interval())\<close>, lines 231 to 253, with its \<^verbatim>\<open>continue\<close> and
  \<^verbatim>\<open>break\<close>.
\<close>

function CalculateDynamicObstacleCost_loop ::
  "TrajectoryCost \<Rightarrow> Globals \<Rightarrow> QuinticPolynomialCurve1d \<Rightarrow> real \<Rightarrow> real \<Rightarrow> nat \<Rightarrow> real \<Rightarrow>
   ComparableCost \<Rightarrow> error + ComparableCost" where
  "CalculateDynamicObstacleCost_loop tc g curve start_s end_s index time_stamp obstacle_cost =
     (if index < unat (tc_num_of_time_stamps tc) then
        let ref_s = speed_point_s tc time_stamp + pt_s (tc_init_sl_point tc) in
        if ref_s < start_s then
          CalculateDynamicObstacleCost_loop tc g curve start_s end_s (index + 1)
            (time_stamp + eval_time_interval (tc_config tc)) obstacle_cost
        else if ref_s > end_s then Inr obstacle_cost
        else
          let s = ref_s - start_s;
              l = curve 0 s;
              dl = curve 1 s;
              sl = \<lparr>pt_s = ref_s, pt_l = l\<rparr>;
              ego_box = GetBoxFromSLPoint tc g sl dl
          in
          case CalculateDynamicObstacleCost_inner tc g ego_box index
                 (tc_dynamic_obstacle_boxes tc) obstacle_cost of
            Inl e \<Rightarrow> Inl e
          | Inr obstacle_cost' \<Rightarrow>
              CalculateDynamicObstacleCost_loop tc g curve start_s end_s (index + 1)
                (time_stamp + eval_time_interval (tc_config tc)) obstacle_cost'
      else Inr obstacle_cost)"
  by pat_completeness auto
termination
  by (relation "measure (\<lambda>(tc, g, curve, start_s, end_s, index, time_stamp, obstacle_cost).
        unat (tc_num_of_time_stamps tc) - index)") auto

declare CalculateDynamicObstacleCost_loop.simps [simp del]

text \<open>\<^verbatim>\<open>TrajectoryCost::CalculateDynamicObstacleCost\<close>, lines 219 to 259.\<close>

definition CalculateDynamicObstacleCost ::
  "TrajectoryCost \<Rightarrow> Globals \<Rightarrow> QuinticPolynomialCurve1d \<Rightarrow> real \<Rightarrow> real \<Rightarrow>
   error + ComparableCost" where
  "CalculateDynamicObstacleCost tc g curve start_s end_s =
     (let obstacle_cost = ComparableCost_default in
      if tc_dynamic_obstacle_boxes tc = [] then Inr obstacle_cost
      else
        case CalculateDynamicObstacleCost_loop tc g curve start_s end_s 0 0 obstacle_cost of
          Inl e \<Rightarrow> Inl e
        | Inr obstacle_cost \<Rightarrow>
            let kDynamicObsWeight = 1 / 10 ^ 6
            in Inr (obstacle_cost\<lparr>safety_cost := safety_cost obstacle_cost *
                      (eval_time_interval (tc_config tc) * kDynamicObsWeight)\<rparr>))"

subsection \<open>Top-level evaluation\<close>

text \<open>
  \<^verbatim>\<open>TrajectoryCost::Calculate\<close>, lines 361 to 371. \<open>None\<close>: one of the two station loops
  does not end; \<open>Some (Inl e)\<close>: the dynamic cost throws.
\<close>

definition Calculate ::
  "TrajectoryCost \<Rightarrow> Globals \<Rightarrow> QuinticPolynomialCurve1d \<Rightarrow> real \<Rightarrow> real \<Rightarrow>
   32 word \<Rightarrow> 32 word \<Rightarrow> (error + ComparableCost) option" where
  "Calculate tc g curve start_s end_s curr_level total_level =
     (let total_cost = ComparableCost_default in
      case CalculatePathCost tc g curve start_s end_s curr_level total_level of
        None \<Rightarrow> None
      | Some path_cost \<Rightarrow>
          (let total_cost = cost_add total_cost path_cost in
           case CalculateStaticObstacleCost tc g curve start_s end_s of
             None \<Rightarrow> None
           | Some static_cost \<Rightarrow>
               (let total_cost = cost_add total_cost static_cost in
                case CalculateDynamicObstacleCost tc g curve start_s end_s of
                  Inl e \<Rightarrow> Some (Inl e)
                | Inr dynamic_cost \<Rightarrow> Some (Inr (cost_add total_cost dynamic_cost)))))"

subsection \<open>Construction\<close>

text \<open>
  \<^verbatim>\<open>static_cast<uint32_t>\<close> of a \<^verbatim>\<open>double\<close> that holds an integer: the value when it fits,
  undefined behaviour (\<open>None\<close>) when it does not.
\<close>

definition static_cast_uint32 :: "int \<Rightarrow> 32 word option" where
  "static_cast_uint32 n = (if 0 \<le> n \<and> n < 2 ^ 32 then Some (word_of_int n) else None)"

text \<open>
  The loop \<^verbatim>\<open>for (uint32_t t = 0; t <= num_of_time_stamps_; ++t)\<close>, lines 86 to 97. The
  counter wraps, so with \<^verbatim>\<open>num_of_time_stamps_ = 0xFFFFFFFF\<close> the loop does not end.
\<close>

partial_function (option) box_by_time_loop ::
  "DpPolyPathConfig \<Rightarrow> 32 word \<Rightarrow> Obstacle \<Rightarrow> 32 word \<Rightarrow> Box2d list \<Rightarrow> Box2d list option" where
  "box_by_time_loop config num ptr_obstacle t box_by_time =
     (if t \<le> num then
        let trajectory_point =
              GetPointAtTime ptr_obstacle (real (unat t) * eval_time_interval config);
            obstacle_box = GetBoundingBox ptr_obstacle trajectory_point;
            kBuff = 0.5;
            expanded_obstacle_box =
              \<lparr>box_center = box_center obstacle_box, box_heading = box_heading obstacle_box,
               box_length = box_length obstacle_box + kBuff,
               box_width = box_width obstacle_box + kBuff\<rparr>
        in box_by_time_loop config num ptr_obstacle (t + 1)
             (box_by_time @ [expanded_obstacle_box])
      else Some box_by_time)"

text \<open>The loop over \<^verbatim>\<open>obstacles\<close>, lines 53 to 101, on the object under construction.\<close>

fun TrajectoryCost_obstacles ::
  "Globals \<Rightarrow> Obstacle list \<Rightarrow> TrajectoryCost \<Rightarrow> TrajectoryCost option" where
  "TrajectoryCost_obstacles g [] tc = Some tc"
| "TrajectoryCost_obstacles g (ptr_obstacle # rest) tc =
     (if IsIgnore ptr_obstacle then TrajectoryCost_obstacles g rest tc
      else if LongitudinalDecision_has_stop ptr_obstacle then TrajectoryCost_obstacles g rest tc
      else
        let sl_boundary = PerceptionSLBoundary ptr_obstacle;
            adc_left_l = pt_l (tc_init_sl_point tc) + left_edge_to_center (tc_vehicle_param tc);
            adc_right_l = pt_l (tc_init_sl_point tc) - right_edge_to_center (tc_vehicle_param tc)
        in
        if adc_left_l + FLAGS_lateral_ignore_buffer g < bnd_start_l sl_boundary \<or>
           adc_right_l - FLAGS_lateral_ignore_buffer g > bnd_end_l sl_boundary
        then TrajectoryCost_obstacles g rest tc
        else
          let is_bycycle_or_pedestrian =
                (Perception_type ptr_obstacle = BICYCLE \<or>
                 Perception_type ptr_obstacle = PEDESTRIAN)
          in
          if IsVirtual ptr_obstacle then TrajectoryCost_obstacles g rest tc
          else if IsStatic ptr_obstacle \<or> is_bycycle_or_pedestrian then
            TrajectoryCost_obstacles g rest
              (tc\<lparr>tc_static_obstacle_sl_boundaries :=
                    tc_static_obstacle_sl_boundaries tc @ [sl_boundary]\<rparr>)
          else
            case box_by_time_loop (tc_config tc) (tc_num_of_time_stamps tc) ptr_obstacle 0 [] of
              None \<Rightarrow> None
            | Some box_by_time \<Rightarrow>
                TrajectoryCost_obstacles g rest
                  (tc\<lparr>tc_dynamic_obstacle_boxes :=
                        tc_dynamic_obstacle_boxes tc @ [box_by_time]\<rparr>))"

text \<open>
  The constructor \<^verbatim>\<open>TrajectoryCost::TrajectoryCost\<close>, lines 32 to 102. A division by an
  \<^verbatim>\<open>eval_time_interval\<close> of zero gives an infinity or NaN, whose cast is undefined; HOL's
  \<open>x / 0 = 0\<close> is not that, so the case is written out.
\<close>

definition TrajectoryCost_new ::
  "Globals \<Rightarrow> DpPolyPathConfig \<Rightarrow> ReferenceLine \<Rightarrow> bool \<Rightarrow> Obstacle list \<Rightarrow> VehicleParam \<Rightarrow>
   SpeedData \<Rightarrow> SLPoint \<Rightarrow> SLBoundary \<Rightarrow> TrajectoryCost option" where
  "TrajectoryCost_new g config reference_line is_change_lane_path obstacles vehicle_param
     heuristic_speed_data init_sl_point adc_sl_boundary =
     (let total_time = min (TotalTime heuristic_speed_data) (FLAGS_prediction_total_time g) in
      if eval_time_interval config = 0 then None
      else
        case static_cast_uint32 \<lfloor>total_time / eval_time_interval config\<rfloor> of
          None \<Rightarrow> None
        | Some num \<Rightarrow>
            TrajectoryCost_obstacles g obstacles
              \<lparr>tc_config = config, tc_reference_line = reference_line,
               tc_is_change_lane_path = is_change_lane_path, tc_vehicle_param = vehicle_param,
               tc_heuristic_speed_data = heuristic_speed_data,
               tc_init_sl_point = init_sl_point, tc_adc_sl_boundary = adc_sl_boundary,
               tc_num_of_time_stamps = num,
               tc_static_obstacle_sl_boundaries = [], tc_dynamic_obstacle_boxes = []\<rparr>)"

section \<open>The claims in the words of the specification\<close>

text \<open>
  The integrand of the smoothness cost as the specification writes it, at the station
  \<open>curve_s\<close> of the curve: \<open>l\<^sup>2 \<cdot> weight_l \<cdot> quasi_softmax(|l|) + dl\<^sup>2 \<cdot> weight_dl + ddl\<^sup>2 \<cdot>
  weight_ddl\<close>, where \<open>l\<close>, \<open>dl\<close>, \<open>ddl\<close> are the magnitudes of the value and of the
  first and second derivative.
\<close>

definition path_sample_cost :: "TrajectoryCost \<Rightarrow> QuinticPolynomialCurve1d \<Rightarrow> real \<Rightarrow> real" where
  "path_sample_cost tc curve curve_s =
     (let l = \<bar>curve 0 curve_s\<bar>; dl = \<bar>curve 1 curve_s\<bar>; ddl = \<bar>curve 2 curve_s\<bar>
      in l\<^sup>2 * path_l_cost (tc_config tc) * quasi_softmax tc \<bar>l\<bar> +
         dl\<^sup>2 * path_dl_cost (tc_config tc) +
         ddl\<^sup>2 * path_ddl_cost (tc_config tc))"

text \<open>The off-road check at the station \<open>curve_s\<close> of the curve, as line 130 calls it.\<close>

definition off_road_at ::
  "TrajectoryCost \<Rightarrow> Globals \<Rightarrow> QuinticPolynomialCurve1d \<Rightarrow> real \<Rightarrow> real \<Rightarrow> bool" where
  "off_road_at tc g curve start_s curve_s =
     IsOffRoad tc g (curve_s + start_s) (curve 0 curve_s) \<bar>curve 1 curve_s\<bar>
       (tc_is_change_lane_path tc)"

text \<open>
  At the sample station \<open>curr_s\<close> of the static cost: whether some cached boundary sets the
  collision flag, and the sum of the penalties of the cached boundaries.
\<close>

definition static_collision_at ::
  "TrajectoryCost \<Rightarrow> Globals \<Rightarrow> QuinticPolynomialCurve1d \<Rightarrow> real \<Rightarrow> real \<Rightarrow> bool" where
  "static_collision_at tc g curve start_s curr_s =
     (\<exists>b \<in> set (tc_static_obstacle_sl_boundaries tc).
        has_collision (GetCostFromObsSL tc g curr_s (curve 0 (curr_s - start_s)) b))"

definition static_sample_cost ::
  "TrajectoryCost \<Rightarrow> Globals \<Rightarrow> QuinticPolynomialCurve1d \<Rightarrow> real \<Rightarrow> real \<Rightarrow> real" where
  "static_sample_cost tc g curve start_s curr_s =
     (\<Sum>b\<leftarrow>tc_static_obstacle_sl_boundaries tc.
        safety_cost (GetCostFromObsSL tc g curr_s (curve 0 (curr_s - start_s)) b))"

text \<open>
  The dynamic cost in the words of the specification. At the time index \<open>i\<close> the time is
  \<open>i \<cdot> eval_time_interval\<close>; the station of the ego vehicle is the station of the speed profile
  at that time plus the initial station; its footprint is built at that station of the curve.
  The steps that are evaluated are those before the first step whose station exceeds
  \<open>end_s\<close>, without the steps whose station is below \<open>start_s\<close>.
\<close>

definition ego_station :: "TrajectoryCost \<Rightarrow> nat \<Rightarrow> real" where
  "ego_station tc i =
     speed_point_s tc (real i * eval_time_interval (tc_config tc)) + pt_s (tc_init_sl_point tc)"

definition ego_box_at ::
  "TrajectoryCost \<Rightarrow> Globals \<Rightarrow> QuinticPolynomialCurve1d \<Rightarrow> real \<Rightarrow> nat \<Rightarrow> Box2d" where
  "ego_box_at tc g curve start_s i =
     (let ref_s = ego_station tc i; s = ref_s - start_s
      in GetBoxFromSLPoint tc g \<lparr>pt_s = ref_s, pt_l = curve 0 s\<rparr> (curve 1 s))"

definition evaluated_steps :: "TrajectoryCost \<Rightarrow> real \<Rightarrow> real \<Rightarrow> nat list" where
  "evaluated_steps tc start_s end_s =
     filter (\<lambda>i. \<not> ego_station tc i < start_s)
       (takeWhile (\<lambda>i. \<not> ego_station tc i > end_s) [0..<unat (tc_num_of_time_stamps tc)])"

definition dynamic_step_cost ::
  "TrajectoryCost \<Rightarrow> Globals \<Rightarrow> QuinticPolynomialCurve1d \<Rightarrow> real \<Rightarrow> nat \<Rightarrow> real" where
  "dynamic_step_cost tc g curve start_s i =
     (\<Sum>obstacle_trajectory\<leftarrow>tc_dynamic_obstacle_boxes tc.
        safety_cost (GetCostBetweenObsBoxes tc g (ego_box_at tc g curve start_s i)
                       (obstacle_trajectory ! i)))"

text \<open>
  The construction in the words of the specification: the footprint of an obstacle at the time
  step \<open>t\<close> is its bounding box at the predicted pose at \<open>t \<cdot> eval_time_interval\<close>, with length
  and width expanded by 0.5; an obstacle is kept when no filter excludes it; a kept obstacle
  is static when it is static or a bicycle or a pedestrian, and dynamic otherwise.
\<close>

definition expanded_box_at :: "DpPolyPathConfig \<Rightarrow> Obstacle \<Rightarrow> nat \<Rightarrow> Box2d" where
  "expanded_box_at config ptr_obstacle t =
     (let obstacle_box = GetBoundingBox ptr_obstacle
            (GetPointAtTime ptr_obstacle (real t * eval_time_interval config))
      in \<lparr>box_center = box_center obstacle_box, box_heading = box_heading obstacle_box,
          box_length = box_length obstacle_box + 0.5,
          box_width = box_width obstacle_box + 0.5\<rparr>)"

definition obstacle_kept :: "Globals \<Rightarrow> SLPoint \<Rightarrow> VehicleParam \<Rightarrow> Obstacle \<Rightarrow> bool" where
  "obstacle_kept g init_sl_point vehicle_param ptr_obstacle =
     (\<not> IsIgnore ptr_obstacle \<and> \<not> LongitudinalDecision_has_stop ptr_obstacle \<and>
      \<not> IsVirtual ptr_obstacle \<and>
      \<not> (pt_l init_sl_point + left_edge_to_center vehicle_param + FLAGS_lateral_ignore_buffer g
           < bnd_start_l (PerceptionSLBoundary ptr_obstacle) \<or>
         pt_l init_sl_point - right_edge_to_center vehicle_param - FLAGS_lateral_ignore_buffer g
           > bnd_end_l (PerceptionSLBoundary ptr_obstacle)))"

definition obstacle_static :: "Obstacle \<Rightarrow> bool" where
  "obstacle_static ptr_obstacle =
     (IsStatic ptr_obstacle \<or> Perception_type ptr_obstacle = BICYCLE \<or>
      Perception_type ptr_obstacle = PEDESTRIAN)"

text \<open>
  The overlap of the ego extents with a boundary in the station-lateral frame: the ego sample
  offset by the front, back, left and right edge-to-center distances overlaps the boundary
  longitudinally, and laterally within the tolerance 0.1. The boundary is laterally relevant
  when the ego extents widened by the lateral ignore buffer reach it.
\<close>

definition sl_overlap :: "Globals \<Rightarrow> real \<Rightarrow> real \<Rightarrow> SLBoundary \<Rightarrow> bool" where
  "sl_overlap g adc_s adc_l b =
     ((bnd_start_s b \<le> adc_s + front_edge_to_center (VehicleConfigHelper_vehicle_param g) \<and>
       adc_s - back_edge_to_center (VehicleConfigHelper_vehicle_param g) \<le> bnd_end_s b) \<and>
      (bnd_start_l b \<le> adc_l + left_edge_to_center (VehicleConfigHelper_vehicle_param g) + 0.1 \<and>
       adc_l - right_edge_to_center (VehicleConfigHelper_vehicle_param g) - 0.1 \<le> bnd_end_l b))"

definition laterally_relevant :: "Globals \<Rightarrow> real \<Rightarrow> SLBoundary \<Rightarrow> bool" where
  "laterally_relevant g adc_l b =
     (bnd_start_l b \<le> adc_l + left_edge_to_center (VehicleConfigHelper_vehicle_param g) +
                        FLAGS_lateral_ignore_buffer g \<and>
      adc_l - right_edge_to_center (VehicleConfigHelper_vehicle_param g) -
        FLAGS_lateral_ignore_buffer g \<le> bnd_end_l b)"

text \<open>
  The proximity penalty of two footprints in the words of the specification, where the weight
  of the risk term is a configured value \<open>risk_weight\<close>.
\<close>

definition GetCostBetweenObsBoxes_spec ::
  "TrajectoryCost \<Rightarrow> Globals \<Rightarrow> real \<Rightarrow> Box2d \<Rightarrow> Box2d \<Rightarrow> ComparableCost" where
  "GetCostBetweenObsBoxes_spec tc g risk_weight ego_box obstacle_box =
     (let d = DistanceTo g obstacle_box ego_box in
      if d > obstacle_ignore_distance (tc_config tc) then ComparableCost_default
      else ComparableCost_default\<lparr>safety_cost :=
             obstacle_collision_cost (tc_config tc) *
               Sigmoid g (obstacle_collision_distance (tc_config tc) - d) +
             risk_weight * Sigmoid g (obstacle_risk_distance (tc_config tc) - d)\<rparr>)"

section \<open>A scenario\<close>

text \<open>
  A straight reference line with lanes of half-width 2, a vehicle of length 5 and width 2
  that starts at station 0 with lateral offset 1, a speed profile of 2 m/s over one second,
  one parked obstacle to the left between the stations 2 and 4, and one vehicle that drives
  ahead. \<^verbatim>\<open>Sigmoid\<close> is the logistic function, \<^verbatim>\<open>NormalizeAngle\<close> leaves a small angle as it
  is, and the distance of two boxes is taken along the x axis between their centers.
\<close>

definition scenario_config :: DpPolyPathConfig where
  "scenario_config =
     \<lparr>eval_time_interval = 1 / 2, path_resolution = 1, path_l_cost = 1, path_dl_cost = 1,
      path_ddl_cost = 1, path_l_cost_param_l0 = 3 / 2, path_l_cost_param_b = 2 / 5,
      path_l_cost_param_k = 3 / 2, path_end_l_cost = 1, obstacle_ignore_distance = 20,
      obstacle_collision_cost = 8, obstacle_collision_distance = 1 / 2,
      obstacle_risk_distance = 2\<rparr>"

definition scenario_vehicle :: VehicleParam where
  "scenario_vehicle =
     \<lparr>front_edge_to_center = 4, back_edge_to_center = 1, left_edge_to_center = 1,
      right_edge_to_center = 1, vp_length = 5, vp_width = 2\<rparr>"

definition scenario_globals :: Globals where
  "scenario_globals =
     \<lparr>FLAGS_prediction_total_time = 5, FLAGS_lateral_ignore_buffer = 3,
      VehicleConfigHelper_vehicle_param = scenario_vehicle,
      Sigmoid = (\<lambda>x. 1 / (1 + exp (- x))),
      NormalizeAngle = (\<lambda>a. a),
      DistanceTo = (\<lambda>a b. \<bar>vec_x (box_center a) - vec_x (box_center b)\<bar>)\<rparr>"

definition scenario_reference_line :: ReferenceLine where
  "scenario_reference_line =
     \<lparr>GetLaneWidth = (\<lambda>s. Some (2, 2)),
      SLToXY = (\<lambda>sl. Some \<lparr>vec_x = pt_s sl, vec_y = pt_l sl\<rparr>),
      GetReferencePoint = (\<lambda>s. \<lparr>ref_heading = 0, ref_kappa = 0\<rparr>)\<rparr>"

definition scenario_speed_data :: SpeedData where
  "scenario_speed_data =
     \<lparr>TotalTime = 1,
      EvaluateByTime = (\<lambda>t. if 0 \<le> t \<and> t \<le> 1
                             then Some \<lparr>speed_s = 2 * t, speed_t = t, speed_v = 2\<rparr>
                             else None)\<rparr>"

definition scenario_parked :: Obstacle where
  "scenario_parked =
     \<lparr>IsIgnore = False, LongitudinalDecision_has_stop = False,
      PerceptionSLBoundary =
        \<lparr>bnd_start_s = 2, bnd_end_s = 4, bnd_start_l = 1 / 2, bnd_end_l = 2\<rparr>,
      Perception_type = VEHICLE, IsVirtual = False, IsStatic = True,
      GetPointAtTime = (\<lambda>t. \<lparr>tp_x = 3, tp_y = 5 / 4, tp_theta = 0, tp_relative_time = t\<rparr>),
      GetBoundingBox = (\<lambda>p. \<lparr>box_center = \<lparr>vec_x = tp_x p, vec_y = tp_y p\<rparr>,
                               box_heading = tp_theta p, box_length = 2, box_width = 3 / 2\<rparr>)\<rparr>"

definition scenario_moving :: Obstacle where
  "scenario_moving =
     \<lparr>IsIgnore = False, LongitudinalDecision_has_stop = False,
      PerceptionSLBoundary =
        \<lparr>bnd_start_s = 8, bnd_end_s = 12, bnd_start_l = - 1, bnd_end_l = 1\<rparr>,
      Perception_type = VEHICLE, IsVirtual = False, IsStatic = False,
      GetPointAtTime = (\<lambda>t. \<lparr>tp_x = 10 + t, tp_y = 0, tp_theta = 0, tp_relative_time = t\<rparr>),
      GetBoundingBox = (\<lambda>p. \<lparr>box_center = \<lparr>vec_x = tp_x p, vec_y = tp_y p\<rparr>,
                               box_heading = tp_theta p, box_length = 4, box_width = 2\<rparr>)\<rparr>"

definition scenario_init_sl_point :: SLPoint where
  "scenario_init_sl_point = \<lparr>pt_s = 0, pt_l = 1\<rparr>"

definition scenario_adc_sl_boundary :: SLBoundary where
  "scenario_adc_sl_boundary =
     \<lparr>bnd_start_s = - 1, bnd_end_s = 4, bnd_start_l = 0, bnd_end_l = 2\<rparr>"

text \<open>The engine that the constructor builds in the scenario, written out.\<close>

definition scenario_tc :: TrajectoryCost where
  "scenario_tc =
     \<lparr>tc_config = scenario_config, tc_reference_line = scenario_reference_line,
      tc_is_change_lane_path = False, tc_vehicle_param = scenario_vehicle,
      tc_heuristic_speed_data = scenario_speed_data,
      tc_init_sl_point = scenario_init_sl_point, tc_adc_sl_boundary = scenario_adc_sl_boundary,
      tc_num_of_time_stamps = 2,
      tc_static_obstacle_sl_boundaries =
        [\<lparr>bnd_start_s = 2, bnd_end_s = 4, bnd_start_l = 1 / 2, bnd_end_l = 2\<rparr>],
      tc_dynamic_obstacle_boxes =
        [[\<lparr>box_center = \<lparr>vec_x = 10, vec_y = 0\<rparr>, box_heading = 0,
           box_length = 9 / 2, box_width = 5 / 2\<rparr>,
          \<lparr>box_center = \<lparr>vec_x = 21 / 2, vec_y = 0\<rparr>, box_heading = 0,
           box_length = 9 / 2, box_width = 5 / 2\<rparr>,
          \<lparr>box_center = \<lparr>vec_x = 11, vec_y = 0\<rparr>, box_heading = 0,
           box_length = 9 / 2, box_width = 5 / 2\<rparr>]]\<rparr>"

text \<open>A curve that keeps the lateral offset 3/2: all its derivatives are zero.\<close>

definition scenario_curve :: QuinticPolynomialCurve1d where
  "scenario_curve = (\<lambda>order param. if order = 0 then 3 / 2 else 0)"

section \<open>Lemmas\<close>

subsection \<open>Sample stations of a loop with a real counter\<close>

lemma samples_finite:
  fixes r c u :: real
  assumes "0 < r" and "\<And>x. Q x \<Longrightarrow> x \<le> u"
  shows "finite {k::nat. Q (c + real k * r)}"
proof -
  obtain n :: nat where n: "(u - c) / r \<le> real n"
    using real_arch_simple by blast
  have "{k::nat. Q (c + real k * r)} \<subseteq> {..n}"
  proof
    fix k assume "k \<in> {k::nat. Q (c + real k * r)}"
    then have "c + real k * r \<le> u" using assms(2) by simp
    then have "real k * r \<le> u - c" by simp
    then have "real k \<le> (u - c) / r" using assms(1) by (simp add: pos_le_divide_eq)
    with n have "real k \<le> real n" by linarith
    then show "k \<in> {..n}" by simp
  qed
  then show ?thesis by (rule finite_subset) simp
qed

lemma samples_empty:
  fixes r c :: real
  assumes "0 < r" and "\<not> Q c" and "\<And>x y. Q x \<Longrightarrow> y \<le> x \<Longrightarrow> Q y"
  shows "{k::nat. Q (c + real k * r)} = {}"
proof -
  have "\<not> Q (c + real k * r)" for k :: nat
  proof
    assume "Q (c + real k * r)"
    moreover have "c \<le> c + real k * r" using assms(1) by simp
    ultimately have "Q c" using assms(3) by blast
    with assms(2) show False by simp
  qed
  then show ?thesis by simp
qed

lemma samples_step:
  fixes r c :: real
  assumes "Q c"
  shows "{k::nat. Q (c + real k * r)} = insert 0 (Suc ` {k. Q ((c + r) + real k * r)})"
proof -
  have eq: "c + real (Suc k) * r = (c + r) + real k * r" for k :: nat
    by (simp add: algebra_simps)
  show ?thesis
  proof (rule set_eqI)
    fix k :: nat
    show "k \<in> {k. Q (c + real k * r)} \<longleftrightarrow> k \<in> insert 0 (Suc ` {k. Q ((c + r) + real k * r)})"
    proof (cases k)
      case 0
      then show ?thesis using assms by simp
    next
      case (Suc j)
      have "k \<in> {k. Q (c + real k * r)} \<longleftrightarrow> Q (c + real (Suc j) * r)"
        by (simp only: Suc mem_Collect_eq)
      also have "\<dots> \<longleftrightarrow> Q ((c + r) + real j * r)"
        by (simp only: eq)
      also have "\<dots> \<longleftrightarrow> k \<in> insert 0 (Suc ` {k. Q ((c + r) + real k * r)})"
        using Suc by (auto simp: image_iff)
      finally show ?thesis .
    qed
  qed
qed

lemma samples_sum_step:
  fixes r c u :: real and f :: "real \<Rightarrow> real"
  assumes "0 < r" and "Q c" and "\<And>x. Q x \<Longrightarrow> x \<le> u"
  shows "(\<Sum>k | Q (c + real k * r). f (c + real k * r)) =
         f c + (\<Sum>k | Q ((c + r) + real k * r). f ((c + r) + real k * r))"
proof -
  let ?B = "{k::nat. Q ((c + r) + real k * r)}"
  have fin: "finite ?B" using assms(1,3) by (rule samples_finite)
  have eq: "c + real (Suc k) * r = (c + r) + real k * r" for k :: nat
    by (simp add: algebra_simps)
  have "(\<Sum>k | Q (c + real k * r). f (c + real k * r)) =
        (\<Sum>k \<in> insert 0 (Suc ` ?B). f (c + real k * r))"
    by (simp only: samples_step [where Q = Q and c = c and r = r, OF assms(2)])
  also have "\<dots> = f (c + real 0 * r) + (\<Sum>k \<in> Suc ` ?B. f (c + real k * r))"
    using fin by (subst sum.insert) auto
  also have "(\<Sum>k \<in> Suc ` ?B. f (c + real k * r)) = (\<Sum>k \<in> ?B. f (c + real (Suc k) * r))"
    by (subst sum.reindex) (auto simp: o_def)
  also have "\<dots> = (\<Sum>k \<in> ?B. f ((c + r) + real k * r))"
    by (simp only: eq)
  finally show ?thesis by simp
qed

lemma samples_ex_step:
  fixes r c :: real
  assumes "Q c"
  shows "(\<exists>k::nat. Q (c + real k * r) \<and> P (c + real k * r)) \<longleftrightarrow>
         (P c \<or> (\<exists>k::nat. Q ((c + r) + real k * r) \<and> P ((c + r) + real k * r)))"
proof -
  have eq: "c + real (Suc k) * r = (c + r) + real k * r" for k :: nat
    by (simp add: algebra_simps)
  show ?thesis
  proof
    assume "\<exists>k::nat. Q (c + real k * r) \<and> P (c + real k * r)"
    then obtain k :: nat where k: "Q (c + real k * r)" "P (c + real k * r)" by blast
    show "P c \<or> (\<exists>k::nat. Q ((c + r) + real k * r) \<and> P ((c + r) + real k * r))"
    proof (cases k)
      case 0
      with k show ?thesis by simp
    next
      case (Suc j)
      from k have "Q ((c + r) + real j * r)" "P ((c + r) + real j * r)"
        by (simp_all only: Suc eq)
      then show ?thesis by blast
    qed
  next
    assume "P c \<or> (\<exists>k::nat. Q ((c + r) + real k * r) \<and> P ((c + r) + real k * r))"
    then show "\<exists>k::nat. Q (c + real k * r) \<and> P (c + real k * r)"
    proof
      assume "P c"
      with assms have "Q (c + real 0 * r) \<and> P (c + real 0 * r)" by simp
      then show ?thesis by blast
    next
      assume "\<exists>k::nat. Q ((c + r) + real k * r) \<and> P ((c + r) + real k * r)"
      then obtain k :: nat where "Q ((c + r) + real k * r)" "P ((c + r) + real k * r)" by blast
      then have "Q (c + real (Suc k) * r) \<and> P (c + real (Suc k) * r)" by (simp only: eq)
      then show ?thesis by blast
    qed
  qed
qed

subsection \<open>The smoothness cost\<close>

lemma CalculatePathCost_body_eq:
  "CalculatePathCost_body tc g curve start_s curve_s st =
     ((fst st)\<lparr>out_of_boundary := out_of_boundary (fst st) \<or> off_road_at tc g curve start_s curve_s\<rparr>,
      snd st + path_sample_cost tc curve curve_s)"
  by (simp add: CalculatePathCost_body_def off_road_at_def path_sample_cost_def Let_def
      power2_eq_square)

lemma CalculatePathCost_loop_total_aux:
  assumes res: "0 < path_resolution (tc_config tc)"
  shows "end_s - start_s - curve_s \<le> real n * path_resolution (tc_config tc) \<Longrightarrow>
    CalculatePathCost_loop tc g curve start_s end_s curve_s st =
      Some ((fst st)\<lparr>out_of_boundary := out_of_boundary (fst st) \<or>
               (\<exists>k::nat. curve_s + real k * path_resolution (tc_config tc) < end_s - start_s \<and>
                   off_road_at tc g curve start_s (curve_s + real k * path_resolution (tc_config tc)))\<rparr>,
            snd st + (\<Sum>k | curve_s + real k * path_resolution (tc_config tc) < end_s - start_s.
                        path_sample_cost tc curve (curve_s + real k * path_resolution (tc_config tc))))"
proof (induction n arbitrary: curve_s st)
  case 0
  then have stop: "\<not> curve_s < end_s - start_s" by simp
  have empty: "{k::nat. curve_s + real k * path_resolution (tc_config tc) < end_s - start_s} = {}"
    using res stop by (rule samples_empty) simp
  then have none: "\<not> (\<exists>k::nat. curve_s + real k * path_resolution (tc_config tc) < end_s - start_s \<and>
       off_road_at tc g curve start_s (curve_s + real k * path_resolution (tc_config tc)))"
    by blast
  show ?case
    by (subst CalculatePathCost_loop.simps) (simp only: stop empty none, simp)
next
  case (Suc n)
  let ?r = "path_resolution (tc_config tc)"
  show ?case
  proof (cases "curve_s < end_s - start_s")
    case False
    have empty: "{k::nat. curve_s + real k * ?r < end_s - start_s} = {}"
      using res False by (rule samples_empty) simp
    then have none: "\<not> (\<exists>k::nat. curve_s + real k * ?r < end_s - start_s \<and>
         off_road_at tc g curve start_s (curve_s + real k * ?r))"
      by blast
    show ?thesis
      by (subst CalculatePathCost_loop.simps) (simp only: False empty none, simp)
  next
    case True
    have bound: "end_s - start_s - (curve_s + ?r) \<le> real n * ?r"
      using Suc.prems by (simp add: algebra_simps)
    have sum: "(\<Sum>k | curve_s + real k * ?r < end_s - start_s.
                  path_sample_cost tc curve (curve_s + real k * ?r)) =
               path_sample_cost tc curve curve_s +
               (\<Sum>k | (curve_s + ?r) + real k * ?r < end_s - start_s.
                  path_sample_cost tc curve ((curve_s + ?r) + real k * ?r))"
      using res True by (rule samples_sum_step [where u = "end_s - start_s"]) simp
    have ex: "(\<exists>k::nat. curve_s + real k * ?r < end_s - start_s \<and>
                 off_road_at tc g curve start_s (curve_s + real k * ?r)) \<longleftrightarrow>
              (off_road_at tc g curve start_s curve_s \<or>
               (\<exists>k::nat. (curve_s + ?r) + real k * ?r < end_s - start_s \<and>
                 off_road_at tc g curve start_s ((curve_s + ?r) + real k * ?r)))"
      using True by (rule samples_ex_step)
    show ?thesis
      apply (subst CalculatePathCost_loop.simps)
      apply (simp only: True if_True Suc.IH [OF bound] CalculatePathCost_body_eq sum ex)
      apply simp
      done
  qed
qed

lemma CalculatePathCost_loop_total:
  assumes res: "0 < path_resolution (tc_config tc)"
  shows "CalculatePathCost_loop tc g curve start_s end_s 0 st =
      Some ((fst st)\<lparr>out_of_boundary := out_of_boundary (fst st) \<or>
               (\<exists>k::nat. real k * path_resolution (tc_config tc) < end_s - start_s \<and>
                   off_road_at tc g curve start_s (real k * path_resolution (tc_config tc)))\<rparr>,
            snd st + (\<Sum>k | real k * path_resolution (tc_config tc) < end_s - start_s.
                        path_sample_cost tc curve (real k * path_resolution (tc_config tc))))"
proof -
  obtain n :: nat where "(end_s - start_s - 0) / path_resolution (tc_config tc) \<le> real n"
    using real_arch_simple by blast
  then have "end_s - start_s - 0 \<le> real n * path_resolution (tc_config tc)"
    using res by (simp add: pos_divide_le_eq)
  from CalculatePathCost_loop_total_aux [OF res this, of g curve st]
  show ?thesis by simp
qed

text \<open>
  The value of the model of \<^verbatim>\<open>CalculatePathCost\<close>. Its smoothness cost is the value of the
  code where the argument of the square root is not negative on the terminal level.
\<close>

lemma CalculatePathCost_total:
  assumes res: "0 < path_resolution (tc_config tc)"
  shows "CalculatePathCost tc g curve start_s end_s curr_level total_level =
     Some \<lparr>has_collision = False,
           out_of_boundary =
             (\<exists>k::nat. real k * path_resolution (tc_config tc) < end_s - start_s \<and>
                off_road_at tc g curve start_s (real k * path_resolution (tc_config tc))),
           smoothness_cost =
             (\<Sum>k | real k * path_resolution (tc_config tc) < end_s - start_s.
                path_sample_cost tc curve (real k * path_resolution (tc_config tc))) *
             path_resolution (tc_config tc) +
             (if curr_level = total_level
              then sqrt (curve 0 (end_s - start_s) - pt_l (tc_init_sl_point tc) / 2) *
                   path_end_l_cost (tc_config tc)
              else 0),
           safety_cost = 0\<rparr>"
  unfolding CalculatePathCost_def CalculatePathCost_loop_total [OF res]
  by (simp add: ComparableCost_default_def Let_def)

text \<open>With a resolution that is not positive, the loop returns only when it does not iterate.\<close>

lemma CalculatePathCost_loop_nonpos:
  assumes ret: "CalculatePathCost_loop tc g curve start_s end_s curve_s st = Some y"
    and res: "path_resolution (tc_config tc) \<le> 0"
  shows "\<not> curve_s < end_s - start_s"
proof -
  have "path_resolution (tc_config tc) \<le> 0 \<longrightarrow> \<not> curve_s < end_s - start_s"
  proof (rule CalculatePathCost_loop.raw_induct
      [where P = "\<lambda>tc g curve start_s end_s curve_s st y.
         path_resolution (tc_config tc) \<le> 0 \<longrightarrow> \<not> curve_s < end_s - start_s", OF _ ret])
    fix loop tc g curve start_s end_s curve_s st y
    assume IH: "\<And>tc g curve start_s end_s curve_s st y.
        loop tc g curve start_s end_s curve_s st = Some y \<Longrightarrow>
        path_resolution (tc_config tc) \<le> 0 \<longrightarrow> \<not> curve_s < end_s - start_s"
      and step: "(if curve_s < end_s - start_s
        then loop tc g curve start_s end_s (curve_s + path_resolution (tc_config tc))
               (CalculatePathCost_body tc g curve start_s curve_s st)
        else Some st) = Some y"
    show "path_resolution (tc_config tc) \<le> 0 \<longrightarrow> \<not> curve_s < end_s - start_s"
    proof (intro impI notI)
      assume r: "path_resolution (tc_config tc) \<le> 0" and lt: "curve_s < end_s - start_s"
      from step lt have "loop tc g curve start_s end_s (curve_s + path_resolution (tc_config tc))
          (CalculatePathCost_body tc g curve start_s curve_s st) = Some y"
        by simp
      from IH [OF this] r have "\<not> curve_s + path_resolution (tc_config tc) < end_s - start_s"
        by simp
      with lt r show False by simp
    qed
  qed
  with res show ?thesis by simp
qed

lemma CalculatePathCost_nonpos:
  assumes "CalculatePathCost tc g curve start_s end_s curr_level total_level = Some c"
    and "path_resolution (tc_config tc) \<le> 0"
  shows "\<not> out_of_boundary c \<and> \<not> has_collision c"
proof -
  from assms(1) obtain st where st:
    "CalculatePathCost_loop tc g curve start_s end_s 0 (ComparableCost_default, 0) = Some st"
    and c: "c = (fst st)\<lparr>smoothness_cost := snd st * path_resolution (tc_config tc) + 
        (if curr_level = total_level
              then sqrt (curve 0 (end_s - start_s) - pt_l (tc_init_sl_point tc) / 2) *
                   path_end_l_cost (tc_config tc)
              else 0)\<rparr>"
    by (auto simp: CalculatePathCost_def Let_def split: option.splits)
  from CalculatePathCost_loop_nonpos [OF st assms(2)] have "\<not> 0 < end_s - start_s" .
  with st have "st = (ComparableCost_default, 0)"
    by (subst (asm) CalculatePathCost_loop.simps) simp
  with c show ?thesis by (simp add: ComparableCost_default_def)
qed

lemma CalculatePathCost_flags:
  assumes "CalculatePathCost tc g curve start_s end_s curr_level total_level = Some p"
  shows "\<not> has_collision p"
    and "out_of_boundary p \<longrightarrow>
      (\<exists>k::nat. real k * path_resolution (tc_config tc) < end_s - start_s \<and>
         off_road_at tc g curve start_s (real k * path_resolution (tc_config tc)))"
proof -
  show "\<not> has_collision p"
  proof (cases "0 < path_resolution (tc_config tc)")
    case True
    from CalculatePathCost_total [OF True, of g curve start_s end_s curr_level total_level] assms
    show ?thesis by auto
  next
    case False
    then have "path_resolution (tc_config tc) \<le> 0" by simp
    from CalculatePathCost_nonpos [OF assms this] show ?thesis by simp
  qed
  show "out_of_boundary p \<longrightarrow>
      (\<exists>k::nat. real k * path_resolution (tc_config tc) < end_s - start_s \<and>
         off_road_at tc g curve start_s (real k * path_resolution (tc_config tc)))"
  proof (cases "0 < path_resolution (tc_config tc)")
    case True
    from CalculatePathCost_total [OF True, of g curve start_s end_s curr_level total_level] assms
    show ?thesis by auto
  next
    case False
    then have "path_resolution (tc_config tc) \<le> 0" by simp
    from CalculatePathCost_nonpos [OF assms this] show ?thesis by simp
  qed
qed

subsection \<open>The static obstacle cost\<close>

lemma GetCostFromObsSL_frame:
  "out_of_boundary (GetCostFromObsSL tc g adc_s adc_l b) = False"
  "smoothness_cost (GetCostFromObsSL tc g adc_s adc_l b) = 0"
  by (simp_all add: GetCostFromObsSL_def Let_def ComparableCost_default_def)

lemma CalculateStaticObstacleCost_inner_eq:
  "CalculateStaticObstacleCost_inner tc g curr_s curr_l bs obstacle_cost =
     \<lparr>has_collision = (has_collision obstacle_cost \<or>
          (\<exists>b \<in> set bs. has_collision (GetCostFromObsSL tc g curr_s curr_l b))),
      out_of_boundary = out_of_boundary obstacle_cost,
      smoothness_cost = smoothness_cost obstacle_cost,
      safety_cost = safety_cost obstacle_cost +
          (\<Sum>b\<leftarrow>bs. safety_cost (GetCostFromObsSL tc g curr_s curr_l b))\<rparr>"
proof (induction bs arbitrary: obstacle_cost)
  case Nil
  show ?case by simp
next
  case (Cons b bs)
  show ?case
    by (simp add: Cons.IH cost_add_def GetCostFromObsSL_frame add.assoc)
qed

lemma CalculateStaticObstacleCost_loop_total_aux:
  assumes res: "0 < path_resolution (tc_config tc)"
  shows "end_s - curr_s < real n * path_resolution (tc_config tc) \<Longrightarrow>
    CalculateStaticObstacleCost_loop tc g curve start_s end_s curr_s obstacle_cost =
      Some \<lparr>has_collision = (has_collision obstacle_cost \<or>
               (\<exists>k::nat. curr_s + real k * path_resolution (tc_config tc) \<le> end_s \<and>
                  static_collision_at tc g curve start_s
                    (curr_s + real k * path_resolution (tc_config tc)))),
            out_of_boundary = out_of_boundary obstacle_cost,
            smoothness_cost = smoothness_cost obstacle_cost,
            safety_cost = safety_cost obstacle_cost +
               (\<Sum>k | curr_s + real k * path_resolution (tc_config tc) \<le> end_s.
                  static_sample_cost tc g curve start_s
                    (curr_s + real k * path_resolution (tc_config tc)))\<rparr>"
proof (induction n arbitrary: curr_s obstacle_cost)
  case 0
  then have stop: "\<not> curr_s \<le> end_s" by simp
  have empty: "{k::nat. curr_s + real k * path_resolution (tc_config tc) \<le> end_s} = {}"
    using res stop by (rule samples_empty) simp
  then have none: "\<not> (\<exists>k::nat. curr_s + real k * path_resolution (tc_config tc) \<le> end_s \<and>
       static_collision_at tc g curve start_s (curr_s + real k * path_resolution (tc_config tc)))"
    by blast
  show ?case
    by (subst CalculateStaticObstacleCost_loop.simps) (simp only: stop empty none, simp)
next
  case (Suc n)
  let ?r = "path_resolution (tc_config tc)"
  show ?case
  proof (cases "curr_s \<le> end_s")
    case False
    have empty: "{k::nat. curr_s + real k * ?r \<le> end_s} = {}"
      using res False by (rule samples_empty) simp
    then have none: "\<not> (\<exists>k::nat. curr_s + real k * ?r \<le> end_s \<and>
         static_collision_at tc g curve start_s (curr_s + real k * ?r))"
      by blast
    show ?thesis
      by (subst CalculateStaticObstacleCost_loop.simps) (simp only: False empty none, simp)
  next
    case True
    have bound: "end_s - (curr_s + ?r) < real n * ?r"
      using Suc.prems by (simp add: algebra_simps)
    have sum: "(\<Sum>k | curr_s + real k * ?r \<le> end_s.
                  static_sample_cost tc g curve start_s (curr_s + real k * ?r)) =
               static_sample_cost tc g curve start_s curr_s +
               (\<Sum>k | (curr_s + ?r) + real k * ?r \<le> end_s.
                  static_sample_cost tc g curve start_s ((curr_s + ?r) + real k * ?r))"
      using res True by (rule samples_sum_step [where u = "end_s"]) simp
    have ex: "(\<exists>k::nat. curr_s + real k * ?r \<le> end_s \<and>
                 static_collision_at tc g curve start_s (curr_s + real k * ?r)) \<longleftrightarrow>
              (static_collision_at tc g curve start_s curr_s \<or>
               (\<exists>k::nat. (curr_s + ?r) + real k * ?r \<le> end_s \<and>
                 static_collision_at tc g curve start_s ((curr_s + ?r) + real k * ?r)))"
      using True by (rule samples_ex_step)
    show ?thesis
      apply (subst CalculateStaticObstacleCost_loop.simps)
      apply (simp only: True if_True Suc.IH [OF bound] CalculateStaticObstacleCost_inner_eq sum ex)
      apply (simp add: static_collision_at_def static_sample_cost_def)
      done
  qed
qed

lemma CalculateStaticObstacleCost_total:
  assumes res: "0 < path_resolution (tc_config tc)"
  shows "CalculateStaticObstacleCost tc g curve start_s end_s =
     Some \<lparr>has_collision =
             (\<exists>k::nat. start_s + real k * path_resolution (tc_config tc) \<le> end_s \<and>
                static_collision_at tc g curve start_s
                  (start_s + real k * path_resolution (tc_config tc))),
           out_of_boundary = False,
           smoothness_cost = 0,
           safety_cost =
             (\<Sum>k | start_s + real k * path_resolution (tc_config tc) \<le> end_s.
                static_sample_cost tc g curve start_s
                  (start_s + real k * path_resolution (tc_config tc))) *
             path_resolution (tc_config tc)\<rparr>"
proof -
  obtain n :: nat where "(end_s - start_s) / path_resolution (tc_config tc) < real n"
    using reals_Archimedean2 by blast
  then have "end_s - start_s < real n * path_resolution (tc_config tc)"
    using res by (simp add: pos_divide_less_eq)
  from CalculateStaticObstacleCost_loop_total_aux
    [where obstacle_cost = ComparableCost_default and g = g and curve = curve and
      start_s = start_s, OF res this]
  show ?thesis
    by (simp add: CalculateStaticObstacleCost_def ComparableCost_default_def)
qed

lemma CalculateStaticObstacleCost_loop_nonpos:
  assumes ret: "CalculateStaticObstacleCost_loop tc g curve start_s end_s curr_s c = Some y"
    and res: "path_resolution (tc_config tc) \<le> 0"
  shows "\<not> curr_s \<le> end_s"
proof -
  have "path_resolution (tc_config tc) \<le> 0 \<longrightarrow> \<not> curr_s \<le> end_s"
  proof (rule CalculateStaticObstacleCost_loop.raw_induct
      [where P = "\<lambda>tc g curve start_s end_s curr_s c y.
         path_resolution (tc_config tc) \<le> 0 \<longrightarrow> \<not> curr_s \<le> end_s", OF _ ret])
    fix loop tc g curve start_s end_s curr_s c y
    assume IH: "\<And>tc g (curve :: QuinticPolynomialCurve1d) start_s end_s curr_s c y.
        loop tc g curve start_s end_s curr_s c = Some y \<Longrightarrow>
        path_resolution (tc_config tc) \<le> 0 \<longrightarrow> \<not> curr_s \<le> end_s"
      and step: "(if curr_s \<le> end_s
        then loop tc g curve start_s end_s (curr_s + path_resolution (tc_config tc))
               (CalculateStaticObstacleCost_inner tc g curr_s (curve 0 (curr_s - start_s))
                  (tc_static_obstacle_sl_boundaries tc) c)
        else Some c) = Some y"
    show "path_resolution (tc_config tc) \<le> 0 \<longrightarrow> \<not> curr_s \<le> end_s"
    proof (intro impI notI)
      assume r: "path_resolution (tc_config tc) \<le> 0" and le: "curr_s \<le> end_s"
      from step le have "loop tc g curve start_s end_s (curr_s + path_resolution (tc_config tc))
          (CalculateStaticObstacleCost_inner tc g curr_s (curve 0 (curr_s - start_s))
                  (tc_static_obstacle_sl_boundaries tc) c) = Some y"
        by simp
      from IH [OF this] r have "\<not> curr_s + path_resolution (tc_config tc) \<le> end_s"
        by simp
      with le r show False by simp
    qed
  qed
  with res show ?thesis by simp
qed

lemma CalculateStaticObstacleCost_nonpos:
  assumes "CalculateStaticObstacleCost tc g curve start_s end_s = Some c"
    and "path_resolution (tc_config tc) \<le> 0"
  shows "\<not> has_collision c \<and> \<not> out_of_boundary c"
proof -
  from assms(1) obtain c' where c':
    "CalculateStaticObstacleCost_loop tc g curve start_s end_s start_s ComparableCost_default
       = Some c'"
    and c: "c = c'\<lparr>safety_cost := safety_cost c' * path_resolution (tc_config tc)\<rparr>"
    by (auto simp: CalculateStaticObstacleCost_def split: option.splits)
  from CalculateStaticObstacleCost_loop_nonpos [OF c' assms(2)] have "\<not> start_s \<le> end_s" .
  with c' have "c' = ComparableCost_default"
    by (subst (asm) CalculateStaticObstacleCost_loop.simps) simp
  with c show ?thesis by (simp add: ComparableCost_default_def)
qed

lemma CalculateStaticObstacleCost_flags:
  assumes "CalculateStaticObstacleCost tc g curve start_s end_s = Some s"
  shows "\<not> out_of_boundary s"
    and "has_collision s \<longrightarrow>
      (\<exists>k::nat. start_s + real k * path_resolution (tc_config tc) \<le> end_s \<and>
         static_collision_at tc g curve start_s
           (start_s + real k * path_resolution (tc_config tc)))"
proof -
  show "\<not> out_of_boundary s"
  proof (cases "0 < path_resolution (tc_config tc)")
    case True
    from CalculateStaticObstacleCost_total [OF True, of g curve start_s end_s] assms
    show ?thesis by auto
  next
    case False
    then have "path_resolution (tc_config tc) \<le> 0" by simp
    from CalculateStaticObstacleCost_nonpos [OF assms this] show ?thesis by simp
  qed
  show "has_collision s \<longrightarrow>
      (\<exists>k::nat. start_s + real k * path_resolution (tc_config tc) \<le> end_s \<and>
         static_collision_at tc g curve start_s
           (start_s + real k * path_resolution (tc_config tc)))"
  proof (cases "0 < path_resolution (tc_config tc)")
    case True
    from CalculateStaticObstacleCost_total [OF True, of g curve start_s end_s] assms
    show ?thesis by auto
  next
    case False
    then have "path_resolution (tc_config tc) \<le> 0" by simp
    from CalculateStaticObstacleCost_nonpos [OF assms this] show ?thesis by simp
  qed
qed

subsection \<open>The dynamic obstacle cost\<close>

lemma GetCostBetweenObsBoxes_frame:
  "has_collision (GetCostBetweenObsBoxes tc g ego_box obstacle_box) = False"
  "out_of_boundary (GetCostBetweenObsBoxes tc g ego_box obstacle_box) = False"
  "smoothness_cost (GetCostBetweenObsBoxes tc g ego_box obstacle_box) = 0"
  by (simp_all add: GetCostBetweenObsBoxes_def Let_def ComparableCost_default_def)

lemma CalculateDynamicObstacleCost_inner_frame:
  "CalculateDynamicObstacleCost_inner tc g ego_box index trajs c = Inr c' \<Longrightarrow>
     has_collision c' = has_collision c \<and> out_of_boundary c' = out_of_boundary c \<and>
     smoothness_cost c' = smoothness_cost c"
proof (induction trajs arbitrary: c)
  case Nil
  then show ?case by simp
next
  case (Cons traj trajs)
  from Cons.prems obtain b where b: "vector_at traj index = Inr b"
    and rest: "CalculateDynamicObstacleCost_inner tc g ego_box index trajs
        (cost_add c (GetCostBetweenObsBoxes tc g ego_box b)) = Inr c'"
    by (auto split: sum.splits)
  from Cons.IH [OF rest] show ?case
    by (simp add: cost_add_def GetCostBetweenObsBoxes_frame)
qed

lemma CalculateDynamicObstacleCost_inner_eq:
  "\<forall>traj \<in> set trajs. index < length traj \<Longrightarrow>
   CalculateDynamicObstacleCost_inner tc g ego_box index trajs c =
     Inr (c\<lparr>safety_cost := safety_cost c +
            (\<Sum>traj\<leftarrow>trajs. safety_cost (GetCostBetweenObsBoxes tc g ego_box (traj ! index)))\<rparr>)"
proof (induction trajs arbitrary: c)
  case Nil
  show ?case by simp
next
  case (Cons traj trajs)
  then have at: "vector_at traj index = Inr (traj ! index)"
    and rest: "\<forall>traj \<in> set trajs. index < length traj"
    by (simp_all add: vector_at_def)
  show ?case
    by (simp add: at Cons.IH [OF rest] cost_add_def GetCostBetweenObsBoxes_frame add.assoc)
qed

lemma CalculateDynamicObstacleCost_loop_frame:
  "k = unat (tc_num_of_time_stamps tc) - index \<Longrightarrow>
   CalculateDynamicObstacleCost_loop tc g curve start_s end_s index time_stamp c = Inr c' \<Longrightarrow>
     has_collision c' = has_collision c \<and> out_of_boundary c' = out_of_boundary c \<and>
     smoothness_cost c' = smoothness_cost c"
proof (induction k arbitrary: index time_stamp c)
  case 0
  then have "\<not> index < unat (tc_num_of_time_stamps tc)" by simp
  with "0.prems"(2) show ?case
    by (subst (asm) CalculateDynamicObstacleCost_loop.simps) simp
next
  case (Suc k)
  then have lt: "index < unat (tc_num_of_time_stamps tc)"
    and k: "k = unat (tc_num_of_time_stamps tc) - (index + 1)" by simp_all
  let ?ref_s = "speed_point_s tc time_stamp + pt_s (tc_init_sl_point tc)"
  consider (skip) "?ref_s < start_s" | (stop) "\<not> ?ref_s < start_s" "?ref_s > end_s"
    | (eval) "\<not> ?ref_s < start_s" "\<not> ?ref_s > end_s" by blast
  then show ?case
  proof cases
    case skip
    with Suc.prems(2) lt have "CalculateDynamicObstacleCost_loop tc g curve start_s end_s
        (index + 1) (time_stamp + eval_time_interval (tc_config tc)) c = Inr c'"
      by (subst (asm) CalculateDynamicObstacleCost_loop.simps) (simp add: Let_def)
    from Suc.IH [OF k this] show ?thesis .
  next
    case stop
    with Suc.prems(2) lt have "c' = c"
      by (subst (asm) CalculateDynamicObstacleCost_loop.simps) (simp add: Let_def)
    then show ?thesis by simp
  next
    case eval
    let ?inner = "CalculateDynamicObstacleCost_inner tc g
          (GetBoxFromSLPoint tc g \<lparr>pt_s = ?ref_s, pt_l = curve 0 (?ref_s - start_s)\<rparr>
             (curve 1 (?ref_s - start_s)))
          index (tc_dynamic_obstacle_boxes tc) c"
    from eval Suc.prems(2) lt obtain c1 where c1: "?inner = Inr c1"
      and rest: "CalculateDynamicObstacleCost_loop tc g curve start_s end_s
        (index + 1) (time_stamp + eval_time_interval (tc_config tc)) c1 = Inr c'"
      by (subst (asm) CalculateDynamicObstacleCost_loop.simps)
         (auto simp add: Let_def split: sum.splits)
    from CalculateDynamicObstacleCost_inner_frame [OF c1] Suc.IH [OF k rest]
    show ?thesis by simp
  qed
qed

lemma CalculateDynamicObstacleCost_loop_eq:
  assumes inv: "\<forall>traj \<in> set (tc_dynamic_obstacle_boxes tc).
      unat (tc_num_of_time_stamps tc) \<le> length traj"
  shows "k = unat (tc_num_of_time_stamps tc) - index \<Longrightarrow>
    time_stamp = real index * eval_time_interval (tc_config tc) \<Longrightarrow>
    CalculateDynamicObstacleCost_loop tc g curve start_s end_s index time_stamp c =
      Inr (c\<lparr>safety_cost := safety_cost c +
        (\<Sum>j\<leftarrow>filter (\<lambda>j. \<not> ego_station tc j < start_s)
               (takeWhile (\<lambda>j. ego_station tc j < start_s \<or> \<not> ego_station tc j > end_s)
                  [index..<unat (tc_num_of_time_stamps tc)]).
           dynamic_step_cost tc g curve start_s j)\<rparr>)"
proof (induction k arbitrary: index time_stamp c)
  case 0
  then have "\<not> index < unat (tc_num_of_time_stamps tc)" by simp
  then show ?case
    by (subst CalculateDynamicObstacleCost_loop.simps) simp
next
  case (Suc k)
  let ?n = "unat (tc_num_of_time_stamps tc)"
  let ?dt = "eval_time_interval (tc_config tc)"
  from Suc.prems have lt: "index < ?n" and k: "k = ?n - (index + 1)" by simp_all
  have ts: "time_stamp + ?dt = real (index + 1) * ?dt"
    using Suc.prems(2) by (simp add: algebra_simps)
  have ref: "speed_point_s tc time_stamp + pt_s (tc_init_sl_point tc) = ego_station tc index"
    using Suc.prems(2) by (simp add: ego_station_def)
  have upt: "[index..<?n] = index # [index + 1..<?n]"
    using lt by (simp add: upt_conv_Cons)
  note IH = Suc.IH [OF k ts]
  consider (skip) "ego_station tc index < start_s"
    | (stop) "\<not> ego_station tc index < start_s" "ego_station tc index > end_s"
    | (eval) "\<not> ego_station tc index < start_s" "\<not> ego_station tc index > end_s" by blast
  then show ?case
  proof cases
    case skip
    show ?thesis
      apply (subst CalculateDynamicObstacleCost_loop.simps)
      apply (simp only: lt if_True Let_def ref skip IH upt)
      apply (simp add: skip)
      done
  next
    case stop
    show ?thesis
      apply (subst CalculateDynamicObstacleCost_loop.simps)
      apply (simp only: lt if_True if_False Let_def ref stop upt)
      apply (simp add: stop)
      done
  next
    case eval
    have idx: "\<forall>traj \<in> set (tc_dynamic_obstacle_boxes tc). index < length traj"
      using inv lt by fastforce
    have inner: "CalculateDynamicObstacleCost_inner tc g
          (GetBoxFromSLPoint tc g
             \<lparr>pt_s = ego_station tc index, pt_l = curve 0 (ego_station tc index - start_s)\<rparr>
             (curve 1 (ego_station tc index - start_s)))
          index (tc_dynamic_obstacle_boxes tc) c =
        Inr (c\<lparr>safety_cost := safety_cost c + dynamic_step_cost tc g curve start_s index\<rparr>)"
      by (simp add: CalculateDynamicObstacleCost_inner_eq [OF idx] dynamic_step_cost_def
          ego_box_at_def Let_def)
    show ?thesis
      apply (subst CalculateDynamicObstacleCost_loop.simps)
      apply (simp only: lt if_True if_False Let_def ref eval inner sum.case IH upt)
      apply (simp add: eval add.assoc)
      done
  qed
qed

lemma evaluated_steps_takeWhile:
  fixes st :: "nat \<Rightarrow> real"
  shows "filter (\<lambda>j. \<not> st j < start_s) (takeWhile (\<lambda>j. st j < start_s \<or> \<not> st j > end_s) xs) =
         filter (\<lambda>j. \<not> st j < start_s) (takeWhile (\<lambda>j. \<not> st j > end_s) xs)"
proof (induction xs)
  case Nil
  show ?case by simp
next
  case (Cons x xs)
  show ?case
  proof (cases "st x < start_s \<and> st x > end_s")
    case False
    then show ?thesis using Cons.IH by auto
  next
    case True
    then have "end_s < start_s" by simp
    then have "\<forall>j \<in> set (takeWhile (\<lambda>j. st j < start_s \<or> \<not> st j > end_s) xs). st j < start_s"
      by (auto dest!: set_takeWhileD)
    then have "filter (\<lambda>j. \<not> st j < start_s)
        (takeWhile (\<lambda>j. st j < start_s \<or> \<not> st j > end_s) xs) = []"
      by (simp add: filter_empty_conv)
    with True show ?thesis by simp
  qed
qed

lemma CalculateDynamicObstacleCost_eq:
  assumes inv: "\<forall>traj \<in> set (tc_dynamic_obstacle_boxes tc).
      unat (tc_num_of_time_stamps tc) \<le> length traj"
  shows "CalculateDynamicObstacleCost tc g curve start_s end_s =
     Inr \<lparr>has_collision = False, out_of_boundary = False, smoothness_cost = 0,
          safety_cost =
            (\<Sum>i\<leftarrow>evaluated_steps tc start_s end_s. dynamic_step_cost tc g curve start_s i) *
            (eval_time_interval (tc_config tc) * (1 / 10 ^ 6))\<rparr>"
proof (cases "tc_dynamic_obstacle_boxes tc = []")
  case True
  then show ?thesis
    by (simp add: CalculateDynamicObstacleCost_def ComparableCost_default_def
        dynamic_step_cost_def)
next
  case False
  have "CalculateDynamicObstacleCost_loop tc g curve start_s end_s 0 0 ComparableCost_default =
      Inr (ComparableCost_default\<lparr>safety_cost := safety_cost ComparableCost_default +
        (\<Sum>i\<leftarrow>evaluated_steps tc start_s end_s. dynamic_step_cost tc g curve start_s i)\<rparr>)"
    unfolding evaluated_steps_def evaluated_steps_takeWhile [symmetric]
    by (rule CalculateDynamicObstacleCost_loop_eq [OF inv refl]) simp
  with False show ?thesis
    by (simp add: CalculateDynamicObstacleCost_def ComparableCost_default_def)
qed

lemma CalculateDynamicObstacleCost_frame:
  assumes "CalculateDynamicObstacleCost tc g curve start_s end_s = Inr d"
  shows "\<not> has_collision d \<and> \<not> out_of_boundary d \<and> smoothness_cost d = 0"
proof (cases "tc_dynamic_obstacle_boxes tc = []")
  case True
  with assms show ?thesis
    by (auto simp: CalculateDynamicObstacleCost_def ComparableCost_default_def)
next
  case False
  with assms obtain c where loop:
    "CalculateDynamicObstacleCost_loop tc g curve start_s end_s 0 0 ComparableCost_default = Inr c"
    and d: "d = c\<lparr>safety_cost := safety_cost c *
                      (eval_time_interval (tc_config tc) * (1 / 10 ^ 6))\<rparr>"
    by (auto simp: CalculateDynamicObstacleCost_def Let_def split: sum.splits)
  from CalculateDynamicObstacleCost_loop_frame [OF refl loop] d
  show ?thesis by (simp add: ComparableCost_default_def)
qed

subsection \<open>The construction\<close>

lemma box_by_time_loop_total:
  fixes num t :: "32 word"
  assumes max: "unat num + 1 < 2 ^ 32"
  shows "k = unat num + 1 - unat t \<Longrightarrow> unat t \<le> unat num + 1 \<Longrightarrow>
    box_by_time_loop config num ptr_obstacle t box_by_time =
      Some (box_by_time @ map (expanded_box_at config ptr_obstacle) [unat t..<unat num + 1])"
proof (induction k arbitrary: t box_by_time)
  case 0
  then have "unat t = unat num + 1" by simp
  then have "\<not> t \<le> num" by (simp add: word_le_nat_alt)
  with \<open>unat t = unat num + 1\<close> show ?case
    by (subst box_by_time_loop.simps) simp
next
  case (Suc k)
  then have le: "t \<le> num" by (simp add: word_le_nat_alt)
  then have "unat t + unat (1 :: 32 word) < 2 ^ LENGTH(32)"
    using max by (simp add: word_le_nat_alt)
  then have suc: "unat (t + 1) = unat t + 1"
    by (simp add: unat_add_lem [THEN iffD1])
  have k: "k = unat num + 1 - unat (t + 1)" using Suc.prems(1) suc by simp
  have le': "unat (t + 1) \<le> unat num + 1" using le suc by (simp add: word_le_nat_alt)
  have upt: "[unat t..<unat num + 1] = unat t # [unat (t + 1)..<unat num + 1]"
    using le suc by (simp add: word_le_nat_alt upt_conv_Cons)
  show ?case
    apply (subst box_by_time_loop.simps)
    apply (simp only: le if_True Let_def Suc.IH [OF k le'] upt)
    apply (simp add: expanded_box_at_def Let_def)
    done
qed

lemma box_by_time_loop_returns:
  fixes num t :: "32 word"
  assumes ret: "box_by_time_loop config num ptr_obstacle t box_by_time = Some y"
  shows "unat num + 1 < 2 ^ 32"
proof -
  have "num \<noteq> - 1"
  proof (rule box_by_time_loop.raw_induct
      [where P = "\<lambda>config num ptr_obstacle t box_by_time y. num \<noteq> - 1", OF _ ret])
    fix loop and config :: DpPolyPathConfig and num :: "32 word"
      and ptr_obstacle :: Obstacle and t :: "32 word"
      and box_by_time :: "Box2d list" and y :: "Box2d list"
    assume IH: "\<And>(config :: DpPolyPathConfig) (num :: 32 word) (ptr_obstacle :: Obstacle)
        (t :: 32 word) (box_by_time :: Box2d list) (y :: Box2d list).
        loop config num ptr_obstacle t box_by_time = Some y \<Longrightarrow> num \<noteq> - 1"
      and step: "(if t \<le> num
        then let trajectory_point =
                   GetPointAtTime ptr_obstacle (real (unat t) * eval_time_interval config);
                 obstacle_box = GetBoundingBox ptr_obstacle trajectory_point;
                 kBuff = 5 / 10;
                 expanded_obstacle_box =
                   \<lparr>box_center = box_center obstacle_box, box_heading = box_heading obstacle_box,
                    box_length = box_length obstacle_box + kBuff,
                    box_width = box_width obstacle_box + kBuff\<rparr>
             in loop config num ptr_obstacle (t + 1) (box_by_time @ [expanded_obstacle_box])
        else Some box_by_time) = Some y"
    show "num \<noteq> - 1"
    proof
      assume m: "num = - 1"
      then have "t \<le> num" by simp
      with step obtain bs where "loop config num ptr_obstacle (t + 1) bs = Some y"
        by (simp add: Let_def)
      from IH [OF this] m show False by simp
    qed
  qed
  then have "unat num \<noteq> unat (- 1 :: 32 word)"
    by (simp only: word_unat_eq_iff not_False_eq_True)
  moreover have "unat num < 2 ^ 32" using unsigned_less [of num, where 'a = nat] by simp
  moreover have "unat (- 1 :: 32 word) = 4294967295"
    by (simp add: unsigned_minus_1_eq_mask mask_eq_exp_minus_1)
  ultimately show ?thesis by simp
qed

lemma box_by_time_loop_value:
  fixes num :: "32 word"
  assumes "box_by_time_loop config num ptr_obstacle 0 [] = Some y"
  shows "y = map (expanded_box_at config ptr_obstacle) [0..<unat num + 1]"
  using box_by_time_loop_total [OF box_by_time_loop_returns [OF assms] refl,
      of 0 config ptr_obstacle "[]"] assms
  by simp

lemma TrajectoryCost_obstacles_value:
  "TrajectoryCost_obstacles g obstacles tc = Some tc' \<Longrightarrow>
   tc' = tc\<lparr>tc_static_obstacle_sl_boundaries :=
                tc_static_obstacle_sl_boundaries tc @
                map PerceptionSLBoundary
                  (filter (\<lambda>ob. obstacle_kept g (tc_init_sl_point tc) (tc_vehicle_param tc) ob \<and>
                                obstacle_static ob) obstacles),
              tc_dynamic_obstacle_boxes :=
                tc_dynamic_obstacle_boxes tc @
                map (\<lambda>ob. map (expanded_box_at (tc_config tc) ob)
                             [0..<unat (tc_num_of_time_stamps tc) + 1])
                  (filter (\<lambda>ob. obstacle_kept g (tc_init_sl_point tc) (tc_vehicle_param tc) ob \<and>
                                \<not> obstacle_static ob) obstacles)\<rparr>"
proof (induction obstacles arbitrary: tc)
  case Nil
  then show ?case by simp
next
  case (Cons ob obstacles)
  let ?kept = "obstacle_kept g (tc_init_sl_point tc) (tc_vehicle_param tc) ob"
  consider (drop) "\<not> ?kept" | (static) "?kept" "obstacle_static ob"
    | (dynamic) "?kept" "\<not> obstacle_static ob" by blast
  then show ?case
  proof cases
    case drop
    with Cons.prems have "TrajectoryCost_obstacles g obstacles tc = Some tc'"
      by (auto simp: obstacle_kept_def Let_def split: if_splits)
    from Cons.IH [OF this] drop show ?thesis by simp
  next
    case static
    with Cons.prems have "TrajectoryCost_obstacles g obstacles
        (tc\<lparr>tc_static_obstacle_sl_boundaries :=
              tc_static_obstacle_sl_boundaries tc @ [PerceptionSLBoundary ob]\<rparr>) = Some tc'"
      by (auto simp: obstacle_kept_def obstacle_static_def Let_def split: if_splits)
    from Cons.IH [OF this] static show ?thesis by simp
  next
    case dynamic
    with Cons.prems obtain box_by_time where
      loop: "box_by_time_loop (tc_config tc) (tc_num_of_time_stamps tc) ob 0 [] = Some box_by_time"
      and rest: "TrajectoryCost_obstacles g obstacles
        (tc\<lparr>tc_dynamic_obstacle_boxes := tc_dynamic_obstacle_boxes tc @ [box_by_time]\<rparr>) = Some tc'"
      by (auto simp: obstacle_kept_def obstacle_static_def Let_def split: if_splits option.splits)
    from Cons.IH [OF rest] dynamic box_by_time_loop_value [OF loop] show ?thesis by simp
  qed
qed

lemma TrajectoryCost_obstacles_total:
  "unat (tc_num_of_time_stamps tc) + 1 < 2 ^ 32 \<Longrightarrow>
   \<exists>tc'. TrajectoryCost_obstacles g obstacles tc = Some tc'"
proof (induction obstacles arbitrary: tc)
  case Nil
  show ?case by simp
next
  case (Cons ob obstacles)
  have loop: "box_by_time_loop (tc_config tc) (tc_num_of_time_stamps tc) ob 0 [] =
      Some (map (expanded_box_at (tc_config tc) ob) [0..<unat (tc_num_of_time_stamps tc) + 1])"
    using box_by_time_loop_total [OF Cons.prems refl, of 0 "tc_config tc" ob "[]"] by simp
  have a: "\<exists>tc'. TrajectoryCost_obstacles g obstacles tc = Some tc'"
    using Cons.IH [OF Cons.prems] .
  have b: "\<exists>tc'. TrajectoryCost_obstacles g obstacles
      (tc\<lparr>tc_static_obstacle_sl_boundaries := bs\<rparr>) = Some tc'" for bs
    using Cons.IH [of "tc\<lparr>tc_static_obstacle_sl_boundaries := bs\<rparr>"] Cons.prems by simp
  have c: "\<exists>tc'. TrajectoryCost_obstacles g obstacles
      (tc\<lparr>tc_dynamic_obstacle_boxes := ds\<rparr>) = Some tc'" for ds
    using Cons.IH [of "tc\<lparr>tc_dynamic_obstacle_boxes := ds\<rparr>"] Cons.prems by simp
  show ?case
    using a b c by (simp add: Let_def loop)
qed

lemma static_cast_uint32_Some:
  assumes "static_cast_uint32 n = Some w"
  shows "int (unat w) = n"
proof -
  from assms have r: "0 \<le> n" "n < 2 ^ 32" and w: "w = word_of_int n"
    by (auto simp: static_cast_uint32_def split: if_splits)
  have "uint w = take_bit LENGTH(32) n"
    unfolding w by (rule uint_word_of_int_eq)
  also have "\<dots> = n"
    using r by (simp add: take_bit_int_eq_self)
  finally have "uint w = n" .
  then show ?thesis by (simp only: uint_nat)
qed

lemma TrajectoryCost_new_value:
  assumes "TrajectoryCost_new g config reference_line is_change_lane_path obstacles
      vehicle_param heuristic_speed_data init_sl_point adc_sl_boundary = Some tc"
  shows "int (unat (tc_num_of_time_stamps tc)) =
      \<lfloor>min (TotalTime heuristic_speed_data) (FLAGS_prediction_total_time g) /
       eval_time_interval config\<rfloor>"
    and "tc_static_obstacle_sl_boundaries tc =
      map PerceptionSLBoundary
        (filter (\<lambda>ob. obstacle_kept g init_sl_point vehicle_param ob \<and> obstacle_static ob)
           obstacles)"
    and "tc_dynamic_obstacle_boxes tc =
      map (\<lambda>ob. map (expanded_box_at config ob) [0..<unat (tc_num_of_time_stamps tc) + 1])
        (filter (\<lambda>ob. obstacle_kept g init_sl_point vehicle_param ob \<and> \<not> obstacle_static ob)
           obstacles)"
proof -
  let ?q = "\<lfloor>min (TotalTime heuristic_speed_data) (FLAGS_prediction_total_time g) /
       eval_time_interval config\<rfloor>"
  from assms obtain num where num: "static_cast_uint32 ?q = Some num"
    and obs: "TrajectoryCost_obstacles g obstacles
              \<lparr>tc_config = config, tc_reference_line = reference_line,
               tc_is_change_lane_path = is_change_lane_path, tc_vehicle_param = vehicle_param,
               tc_heuristic_speed_data = heuristic_speed_data,
               tc_init_sl_point = init_sl_point, tc_adc_sl_boundary = adc_sl_boundary,
               tc_num_of_time_stamps = num,
               tc_static_obstacle_sl_boundaries = [], tc_dynamic_obstacle_boxes = []\<rparr> = Some tc"
    by (auto simp: TrajectoryCost_new_def Let_def split: if_splits option.splits)
  note v = TrajectoryCost_obstacles_value [OF obs]
  from v have n: "tc_num_of_time_stamps tc = num" by simp
  from static_cast_uint32_Some [OF num] n
  show "int (unat (tc_num_of_time_stamps tc)) = ?q" by simp
  from v show "tc_static_obstacle_sl_boundaries tc =
      map PerceptionSLBoundary
        (filter (\<lambda>ob. obstacle_kept g init_sl_point vehicle_param ob \<and> obstacle_static ob)
           obstacles)" by simp
  from v n show "tc_dynamic_obstacle_boxes tc =
      map (\<lambda>ob. map (expanded_box_at config ob) [0..<unat (tc_num_of_time_stamps tc) + 1])
        (filter (\<lambda>ob. obstacle_kept g init_sl_point vehicle_param ob \<and> \<not> obstacle_static ob)
           obstacles)" by simp
qed

lemma static_cast_uint32_small:
  assumes "0 \<le> q" and "q < 2 ^ 32 - 1"
  shows "\<exists>w. static_cast_uint32 q = Some w \<and> unat w + 1 < 2 ^ 32"
proof -
  from assms obtain w where cast: "static_cast_uint32 q = Some w"
    by (simp add: static_cast_uint32_def)
  define n where "n = unat w"
  have "int n = q" unfolding n_def by (rule static_cast_uint32_Some [OF cast])
  with assms(2) have "int n < 4294967295" by simp
  then have "n + 1 < 2 ^ 32" by simp
  with cast show ?thesis by (simp add: n_def)
qed

lemma TrajectoryCost_new_total:
  assumes "eval_time_interval config \<noteq> 0"
    and "0 \<le> \<lfloor>min (TotalTime heuristic_speed_data) (FLAGS_prediction_total_time g) /
       eval_time_interval config\<rfloor>"
    and "\<lfloor>min (TotalTime heuristic_speed_data) (FLAGS_prediction_total_time g) /
       eval_time_interval config\<rfloor> < 2 ^ 32 - 1"
  shows "\<exists>tc. TrajectoryCost_new g config reference_line is_change_lane_path obstacles
      vehicle_param heuristic_speed_data init_sl_point adc_sl_boundary = Some tc"
proof -
  from static_cast_uint32_small [OF assms(2,3)] obtain w where
    cast: "static_cast_uint32 \<lfloor>min (TotalTime heuristic_speed_data)
       (FLAGS_prediction_total_time g) / eval_time_interval config\<rfloor> = Some w"
    and small: "unat w + 1 < 2 ^ 32" by blast
  have "\<exists>tc. TrajectoryCost_obstacles g obstacles
              \<lparr>tc_config = config, tc_reference_line = reference_line,
               tc_is_change_lane_path = is_change_lane_path, tc_vehicle_param = vehicle_param,
               tc_heuristic_speed_data = heuristic_speed_data,
               tc_init_sl_point = init_sl_point, tc_adc_sl_boundary = adc_sl_boundary,
               tc_num_of_time_stamps = w,
               tc_static_obstacle_sl_boundaries = [], tc_dynamic_obstacle_boxes = []\<rparr> = Some tc"
    using small by (intro TrajectoryCost_obstacles_total) simp
  then show ?thesis
    using assms(1) by (simp add: TrajectoryCost_new_def Let_def cast)
qed

text \<open>The invariant of the dynamic cache that the dynamic cost relies on.\<close>

lemma TrajectoryCost_new_invariant:
  assumes "TrajectoryCost_new g config reference_line is_change_lane_path obstacles
      vehicle_param heuristic_speed_data init_sl_point adc_sl_boundary = Some tc"
  shows "\<forall>obstacle_trajectory \<in> set (tc_dynamic_obstacle_boxes tc).
      unat (tc_num_of_time_stamps tc) \<le> length obstacle_trajectory"
proof
  fix obstacle_trajectory
  assume "obstacle_trajectory \<in> set (tc_dynamic_obstacle_boxes tc)"
  then obtain ob where "obstacle_trajectory =
      map (expanded_box_at config ob) [0..<unat (tc_num_of_time_stamps tc) + 1]"
    unfolding TrajectoryCost_new_value(3) [OF assms] by auto
  then show "unat (tc_num_of_time_stamps tc) \<le> length obstacle_trajectory"
    by simp
qed

subsection \<open>The top-level evaluation\<close>

lemma Calculate_parts:
  assumes "Calculate tc g curve start_s end_s curr_level total_level = Some (Inr c)"
  shows "\<exists>p s d. CalculatePathCost tc g curve start_s end_s curr_level total_level = Some p \<and>
     CalculateStaticObstacleCost tc g curve start_s end_s = Some s \<and>
     CalculateDynamicObstacleCost tc g curve start_s end_s = Inr d \<and>
     c = cost_add (cost_add (cost_add ComparableCost_default p) s) d"
  using assms
  by (auto simp: Calculate_def Let_def split: option.splits sum.splits)

lemma Calculate_total:
  assumes "0 < path_resolution (tc_config tc)"
    and "\<forall>obstacle_trajectory \<in> set (tc_dynamic_obstacle_boxes tc).
      unat (tc_num_of_time_stamps tc) \<le> length obstacle_trajectory"
  shows "\<exists>p s d.
     CalculatePathCost tc g curve start_s end_s curr_level total_level = Some p \<and>
     CalculateStaticObstacleCost tc g curve start_s end_s = Some s \<and>
     CalculateDynamicObstacleCost tc g curve start_s end_s = Inr d"
  by (simp add: CalculatePathCost_total [OF assms(1)]
      CalculateStaticObstacleCost_total [OF assms(1)]
      CalculateDynamicObstacleCost_eq [OF assms(2)])

subsection \<open>The scenario, evaluated\<close>

lemmas scenario_defs =
  scenario_tc_def scenario_globals_def scenario_config_def scenario_vehicle_def
  scenario_reference_line_def scenario_speed_data_def scenario_init_sl_point_def
  scenario_adc_sl_boundary_def scenario_curve_def

lemma scenario_path_loop:
  "CalculatePathCost_loop scenario_tc scenario_globals scenario_curve 0 2 0
     (ComparableCost_default, 0) = Some (ComparableCost_default, 63 / 20)"
  apply (subst CalculatePathCost_loop.simps)
  apply (simp add: CalculatePathCost_body_def IsOffRoad_def quasi_softmax_def Let_def
      scenario_defs ComparableCost_default_def)
  apply (subst CalculatePathCost_loop.simps)
  apply (simp add: CalculatePathCost_body_def IsOffRoad_def quasi_softmax_def Let_def
      scenario_defs ComparableCost_default_def)
  apply (subst CalculatePathCost_loop.simps)
  apply (simp add: scenario_defs)
  done

lemma scenario_path_cost:
  "CalculatePathCost scenario_tc scenario_globals scenario_curve 0 2 1 1 =
     Some \<lparr>has_collision = False, out_of_boundary = False, smoothness_cost = 83 / 20,
           safety_cost = 0\<rparr>"
  by (simp add: CalculatePathCost_def scenario_path_loop)
     (simp add: scenario_defs ComparableCost_default_def)

lemma scenario_static_loop:
  "CalculateStaticObstacleCost_loop scenario_tc scenario_globals scenario_curve 0 2 0
     ComparableCost_default =
   Some \<lparr>has_collision = True, out_of_boundary = False, smoothness_cost = 0,
         safety_cost = 8 / (1 + exp (- 2))\<rparr>"
  apply (subst CalculateStaticObstacleCost_loop.simps)
  apply (simp add: GetCostFromObsSL_def cost_add_def Let_def scenario_defs
      ComparableCost_default_def)
  apply (subst CalculateStaticObstacleCost_loop.simps)
  apply (simp add: GetCostFromObsSL_def cost_add_def Let_def scenario_defs
      ComparableCost_default_def)
  apply (subst CalculateStaticObstacleCost_loop.simps)
  apply (simp add: GetCostFromObsSL_def cost_add_def Let_def scenario_defs
      ComparableCost_default_def)
  apply (subst CalculateStaticObstacleCost_loop.simps)
  apply (simp add: scenario_defs)
  done

lemma scenario_static_cost:
  "CalculateStaticObstacleCost scenario_tc scenario_globals scenario_curve 0 2 =
     Some \<lparr>has_collision = True, out_of_boundary = False, smoothness_cost = 0,
           safety_cost = 8 / (1 + exp (- 2))\<rparr>"
  by (simp add: CalculateStaticObstacleCost_def scenario_static_loop)
     (simp add: scenario_defs)

lemma scenario_dynamic_loop:
  "CalculateDynamicObstacleCost_loop scenario_tc scenario_globals scenario_curve 0 2 0 0
     ComparableCost_default =
   Inr \<lparr>has_collision = False, out_of_boundary = False, smoothness_cost = 0,
        safety_cost = 8 / (1 + exp (19 / 2)) + 20 / (1 + exp 8) +
                      (8 / (1 + exp 9) + 20 / (1 + exp (15 / 2)))\<rparr>"
  apply (subst CalculateDynamicObstacleCost_loop.simps)
  apply (simp add: speed_point_s_def GetBoxFromSLPoint_def GetCostBetweenObsBoxes_def
      vector_at_def cost_add_def Let_def scenario_defs ComparableCost_default_def)
  apply (subst CalculateDynamicObstacleCost_loop.simps)
  apply (simp add: speed_point_s_def GetBoxFromSLPoint_def GetCostBetweenObsBoxes_def
      vector_at_def cost_add_def Let_def scenario_defs ComparableCost_default_def)
  apply (subst CalculateDynamicObstacleCost_loop.simps)
  apply (simp add: scenario_defs)
  done

lemma scenario_dynamic_cost:
  "CalculateDynamicObstacleCost scenario_tc scenario_globals scenario_curve 0 2 =
     Inr \<lparr>has_collision = False, out_of_boundary = False, smoothness_cost = 0,
          safety_cost = (8 / (1 + exp (19 / 2)) + 20 / (1 + exp 8) +
                         (8 / (1 + exp 9) + 20 / (1 + exp (15 / 2)))) *
                        (1 / 2 * (1 / 10 ^ 6))\<rparr>"
  by (simp add: CalculateDynamicObstacleCost_def scenario_dynamic_loop)
     (simp add: scenario_defs)

lemma scenario_calculate:
  "Calculate scenario_tc scenario_globals scenario_curve 0 2 1 1 =
     Some (Inr \<lparr>has_collision = True, out_of_boundary = False, smoothness_cost = 83 / 20,
        safety_cost = 8 / (1 + exp (- 2)) +
          (8 / (1 + exp (19 / 2)) + 20 / (1 + exp 8) +
           (8 / (1 + exp 9) + 20 / (1 + exp (15 / 2)))) * (1 / 2 * (1 / 10 ^ 6))\<rparr>)"
  by (simp add: Calculate_def scenario_path_cost scenario_static_cost scenario_dynamic_cost
      cost_add_def ComparableCost_default_def)

lemma scenario_box_by_time:
  "box_by_time_loop scenario_config 2 scenario_moving 0 [] =
     Some [\<lparr>box_center = \<lparr>vec_x = 10, vec_y = 0\<rparr>, box_heading = 0,
            box_length = 9 / 2, box_width = 5 / 2\<rparr>,
           \<lparr>box_center = \<lparr>vec_x = 21 / 2, vec_y = 0\<rparr>, box_heading = 0,
            box_length = 9 / 2, box_width = 5 / 2\<rparr>,
           \<lparr>box_center = \<lparr>vec_x = 11, vec_y = 0\<rparr>, box_heading = 0,
            box_length = 9 / 2, box_width = 5 / 2\<rparr>]"
  apply (subst box_by_time_loop.simps)
  apply (simp add: Let_def scenario_config_def scenario_moving_def)
  apply (subst box_by_time_loop.simps)
  apply (simp add: Let_def scenario_config_def scenario_moving_def)
  apply (subst box_by_time_loop.simps)
  apply (simp add: Let_def scenario_config_def scenario_moving_def)
  apply (subst box_by_time_loop.simps)
  apply (simp add: Let_def scenario_config_def scenario_moving_def)
  done

lemma scenario_new:
  "TrajectoryCost_new scenario_globals scenario_config scenario_reference_line False
     [scenario_parked, scenario_moving] scenario_vehicle scenario_speed_data
     scenario_init_sl_point scenario_adc_sl_boundary = Some scenario_tc"
proof -
  have num: "static_cast_uint32 \<lfloor>min (TotalTime scenario_speed_data)
      (FLAGS_prediction_total_time scenario_globals) / eval_time_interval scenario_config\<rfloor> =
      Some 2"
    by (simp add: static_cast_uint32_def scenario_defs)
  have interval: "eval_time_interval scenario_config \<noteq> 0"
    by (simp add: scenario_config_def)
  show ?thesis
    unfolding TrajectoryCost_new_def Let_def num
    apply (simp add: interval scenario_box_by_time)
    apply (simp add: scenario_parked_def scenario_moving_def scenario_tc_def
        scenario_globals_def scenario_vehicle_def scenario_init_sl_point_def Let_def
        scenario_box_by_time [unfolded scenario_moving_def])
    done
qed

section \<open>The claims\<close>

text \<open>
  C1. \<^verbatim>\<open>Calculate\<close> returns the combination of the costs that \<^verbatim>\<open>CalculatePathCost\<close>,
  \<^verbatim>\<open>CalculateStaticObstacleCost\<close> and \<^verbatim>\<open>CalculateDynamicObstacleCost\<close> return for the same
  arguments: each flag is the disjunction of the three flags and each scalar the sum of the
  three scalars. The three calls return when the sample resolution is positive and every
  cached trajectory has a footprint for every time index below \<open>num_of_time_stamps\<close>.
\<close>

theorem Calculate_combines:
  "(CalculatePathCost tc g curve start_s end_s curr_level total_level = Some path_cost \<and>
    CalculateStaticObstacleCost tc g curve start_s end_s = Some static_cost \<and>
    CalculateDynamicObstacleCost tc g curve start_s end_s = Inr dynamic_cost \<longrightarrow>
    Calculate tc g curve start_s end_s curr_level total_level =
      Some (Inr
        \<lparr>has_collision =
           (has_collision path_cost \<or> has_collision static_cost \<or>
            has_collision dynamic_cost),
         out_of_boundary =
           (out_of_boundary path_cost \<or> out_of_boundary static_cost \<or>
            out_of_boundary dynamic_cost),
         smoothness_cost =
           smoothness_cost path_cost + smoothness_cost static_cost +
           smoothness_cost dynamic_cost,
         safety_cost =
           safety_cost path_cost + safety_cost static_cost + safety_cost dynamic_cost\<rparr>)) \<and>
   (0 < path_resolution (tc_config tc) \<and>
    (\<forall>obstacle_trajectory \<in> set (tc_dynamic_obstacle_boxes tc).
       unat (tc_num_of_time_stamps tc) \<le> length obstacle_trajectory) \<longrightarrow>
    (\<exists>p s d.
       CalculatePathCost tc g curve start_s end_s curr_level total_level = Some p \<and>
       CalculateStaticObstacleCost tc g curve start_s end_s = Some s \<and>
       CalculateDynamicObstacleCost tc g curve start_s end_s = Inr d))"
proof (intro conjI impI)
  assume "CalculatePathCost tc g curve start_s end_s curr_level total_level = Some path_cost \<and>
    CalculateStaticObstacleCost tc g curve start_s end_s = Some static_cost \<and>
    CalculateDynamicObstacleCost tc g curve start_s end_s = Inr dynamic_cost"
  then show "Calculate tc g curve start_s end_s curr_level total_level =
      Some (Inr
        \<lparr>has_collision =
           (has_collision path_cost \<or> has_collision static_cost \<or>
            has_collision dynamic_cost),
         out_of_boundary =
           (out_of_boundary path_cost \<or> out_of_boundary static_cost \<or>
            out_of_boundary dynamic_cost),
         smoothness_cost =
           smoothness_cost path_cost + smoothness_cost static_cost +
           smoothness_cost dynamic_cost,
         safety_cost =
           safety_cost path_cost + safety_cost static_cost + safety_cost dynamic_cost\<rparr>)"
    by (simp add: Calculate_def cost_add_def ComparableCost_default_def)
next
  assume "0 < path_resolution (tc_config tc) \<and>
    (\<forall>obstacle_trajectory \<in> set (tc_dynamic_obstacle_boxes tc).
       unat (tc_num_of_time_stamps tc) \<le> length obstacle_trajectory)"
  then show "\<exists>p s d.
       CalculatePathCost tc g curve start_s end_s curr_level total_level = Some p \<and>
       CalculateStaticObstacleCost tc g curve start_s end_s = Some s \<and>
       CalculateDynamicObstacleCost tc g curve start_s end_s = Inr d"
    using Calculate_total [of tc g curve start_s end_s curr_level total_level] by blast
qed

theorem Calculate_combines_witness:
  "0 < path_resolution (tc_config scenario_tc) \<and>
   unat (tc_num_of_time_stamps scenario_tc) = 2 \<and>
   map length (tc_dynamic_obstacle_boxes scenario_tc) = [3] \<and>
   CalculatePathCost scenario_tc scenario_globals scenario_curve 0 2 1 1 =
     Some \<lparr>has_collision = False, out_of_boundary = False, smoothness_cost = 83 / 20,
           safety_cost = 0\<rparr> \<and>
   CalculateStaticObstacleCost scenario_tc scenario_globals scenario_curve 0 2 =
     Some \<lparr>has_collision = True, out_of_boundary = False, smoothness_cost = 0,
           safety_cost = 8 / (1 + exp (- 2))\<rparr> \<and>
   CalculateDynamicObstacleCost scenario_tc scenario_globals scenario_curve 0 2 =
     Inr \<lparr>has_collision = False, out_of_boundary = False, smoothness_cost = 0,
          safety_cost = (8 / (1 + exp (19 / 2)) + 20 / (1 + exp 8) +
                         (8 / (1 + exp 9) + 20 / (1 + exp (15 / 2)))) *
                        (1 / 2 * (1 / 10 ^ 6))\<rparr> \<and>
   Calculate scenario_tc scenario_globals scenario_curve 0 2 1 1 =
     Some (Inr \<lparr>has_collision = True, out_of_boundary = False, smoothness_cost = 83 / 20,
        safety_cost = 0 + 8 / (1 + exp (- 2)) +
          (8 / (1 + exp (19 / 2)) + 20 / (1 + exp 8) +
           (8 / (1 + exp 9) + 20 / (1 + exp (15 / 2)))) * (1 / 2 * (1 / 10 ^ 6))\<rparr>)"
proof -
  have "0 < path_resolution (tc_config scenario_tc)"
    and "unat (tc_num_of_time_stamps scenario_tc) = 2"
    and "map length (tc_dynamic_obstacle_boxes scenario_tc) = [3]"
    by (simp_all add: scenario_defs)
  moreover
  from Calculate_combines [THEN conjunct1, rule_format,
      OF conjI [OF scenario_path_cost conjI [OF scenario_static_cost scenario_dynamic_cost]]]
  have "Calculate scenario_tc scenario_globals scenario_curve 0 2 1 1 =
     Some (Inr \<lparr>has_collision = True, out_of_boundary = False, smoothness_cost = 83 / 20,
        safety_cost = 0 + 8 / (1 + exp (- 2)) +
          (8 / (1 + exp (19 / 2)) + 20 / (1 + exp 8) +
           (8 / (1 + exp 9) + 20 / (1 + exp (15 / 2)))) * (1 / 2 * (1 / 10 ^ 6))\<rparr>)"
    by simp
  ultimately show ?thesis
    using scenario_path_cost scenario_static_cost scenario_dynamic_cost by blast
qed

text \<open>
  C2. With a positive sample resolution \<^verbatim>\<open>CalculatePathCost\<close> returns, and the smoothness cost
  that it returns is the sum, over the sample stations \<open>0, resolution, 2 \<cdot> resolution, \<dots>\<close>
  strictly below \<open>end_s - start_s\<close>, of \<open>l\<^sup>2 \<cdot> weight_l \<cdot> quasi_softmax(|l|) + dl\<^sup>2 \<cdot> weight_dl +
  ddl\<^sup>2 \<cdot> weight_ddl\<close>, multiplied by the resolution, plus the term of the terminal level;
  \<open>quasi_softmax(x) = (b + exp(-k (x - l0))) / (1 + exp(-k (x - l0)))\<close>; the safety cost is
  zero and the collision flag is not set. The statement about the smoothness cost is for the
  calls where the term of the terminal level is a number: on the terminal level the argument
  \<open>end_l - init_l / 2\<close> of the square root is not negative (otherwise \<^verbatim>\<open>std::sqrt\<close> gives
  NaN). The statements about the safety cost and the collision flag are for every call.
\<close>

theorem CalculatePathCost_smoothness:
  assumes "0 < path_resolution (tc_config tc)"
  shows "\<exists>cost. CalculatePathCost tc g curve start_s end_s curr_level total_level = Some cost \<and>
     ((curr_level = total_level \<longrightarrow>
         0 \<le> curve 0 (end_s - start_s) - pt_l (tc_init_sl_point tc) / 2) \<longrightarrow>
      smoothness_cost cost =
        (\<Sum>k | real k * path_resolution (tc_config tc) < end_s - start_s.
           path_sample_cost tc curve (real k * path_resolution (tc_config tc))) *
        path_resolution (tc_config tc) +
        (if curr_level = total_level
         then sqrt (curve 0 (end_s - start_s) - pt_l (tc_init_sl_point tc) / 2) *
              path_end_l_cost (tc_config tc)
         else 0)) \<and>
     safety_cost cost = 0 \<and> \<not> has_collision cost \<and>
     (\<forall>x. quasi_softmax tc x =
        (path_l_cost_param_b (tc_config tc) +
         exp (- path_l_cost_param_k (tc_config tc) * (x - path_l_cost_param_l0 (tc_config tc)))) /
        (1 + exp (- path_l_cost_param_k (tc_config tc) *
                    (x - path_l_cost_param_l0 (tc_config tc)))))"
  by (simp add: CalculatePathCost_total [OF assms] quasi_softmax_def Let_def)

theorem CalculatePathCost_smoothness_witness:
  "0 < path_resolution (tc_config scenario_tc) \<and>
   0 \<le> scenario_curve 0 (2 - 0) - pt_l (tc_init_sl_point scenario_tc) / 2 \<and>
   CalculatePathCost scenario_tc scenario_globals scenario_curve 0 2 1 1 =
     Some \<lparr>has_collision = False, out_of_boundary = False, smoothness_cost = 83 / 20,
           safety_cost = 0\<rparr> \<and>
   (\<Sum>k | real k * path_resolution (tc_config scenario_tc) < 2 - 0.
      path_sample_cost scenario_tc scenario_curve
        (real k * path_resolution (tc_config scenario_tc))) *
   path_resolution (tc_config scenario_tc) +
   sqrt (scenario_curve 0 (2 - 0) - pt_l (tc_init_sl_point scenario_tc) / 2) *
   path_end_l_cost (tc_config scenario_tc) = 83 / 20"
proof -
  have res: "0 < path_resolution (tc_config scenario_tc)"
    by (simp add: scenario_defs)
  have arg: "0 \<le> scenario_curve 0 (2 - 0) - pt_l (tc_init_sl_point scenario_tc) / 2"
    by (simp add: scenario_defs)
  from CalculatePathCost_smoothness [OF res, of scenario_globals scenario_curve 0 2 1 1]
    scenario_path_cost res arg
  show ?thesis by auto
qed

text \<open>
  C3. With a positive sample resolution, the penalty \<open>sqrt(end_l - init_l / 2) \<cdot> path_end_l_cost\<close>,
  where \<open>end_l\<close> is the value of the curve at \<open>end_s - start_s\<close> and \<open>init_l\<close> the initial
  lateral offset, is added to the smoothness cost, after the scaling by the resolution, when
  \<open>curr_level = total_level\<close> and only then: at any other level the smoothness cost is the
  scaled sum alone, and two calls that differ in such levels only return the same cost.
  The statement about the terminal level is for the calls where the penalty is a number, that
  is, where \<open>end_l - init_l / 2\<close> is not negative (otherwise \<^verbatim>\<open>std::sqrt\<close> gives NaN).
\<close>

theorem CalculatePathCost_end_l_penalty:
  assumes "0 < path_resolution (tc_config tc)"
  shows "\<exists>cost scaled.
     CalculatePathCost tc g curve start_s end_s curr_level total_level = Some cost \<and>
     scaled =
       (\<Sum>k | real k * path_resolution (tc_config tc) < end_s - start_s.
          path_sample_cost tc curve (real k * path_resolution (tc_config tc))) *
       path_resolution (tc_config tc) \<and>
     (curr_level = total_level \<and>
      0 \<le> curve 0 (end_s - start_s) - pt_l (tc_init_sl_point tc) / 2 \<longrightarrow>
        smoothness_cost cost =
          scaled + sqrt (curve 0 (end_s - start_s) - pt_l (tc_init_sl_point tc) / 2) *
                   path_end_l_cost (tc_config tc)) \<and>
     (curr_level \<noteq> total_level \<longrightarrow> smoothness_cost cost = scaled) \<and>
     (curr_level \<noteq> total_level \<and> curr_level' \<noteq> total_level' \<longrightarrow>
        CalculatePathCost tc g curve start_s end_s curr_level' total_level' = Some cost)"
  by (simp add: CalculatePathCost_total [OF assms])

theorem CalculatePathCost_end_l_penalty_witness:
  "0 < path_resolution (tc_config scenario_tc) \<and>
   0 \<le> scenario_curve 0 (2 - 0) - pt_l (tc_init_sl_point scenario_tc) / 2 \<and>
   (\<exists>cost_end cost_mid.
      CalculatePathCost scenario_tc scenario_globals scenario_curve 0 2 1 1 = Some cost_end \<and>
      CalculatePathCost scenario_tc scenario_globals scenario_curve 0 2 0 1 = Some cost_mid \<and>
      CalculatePathCost scenario_tc scenario_globals scenario_curve 0 2 1 2 = Some cost_mid \<and>
      smoothness_cost cost_end = 83 / 20 \<and>
      smoothness_cost cost_end = smoothness_cost cost_mid +
        sqrt (scenario_curve 0 (2 - 0) - pt_l (tc_init_sl_point scenario_tc) / 2) *
        path_end_l_cost (tc_config scenario_tc))"
proof -
  have res: "0 < path_resolution (tc_config scenario_tc)"
    by (simp add: scenario_defs)
  have arg: "0 \<le> scenario_curve 0 (2 - 0) - pt_l (tc_init_sl_point scenario_tc) / 2"
    by (simp add: scenario_defs)
  from CalculatePathCost_end_l_penalty [OF res, of scenario_globals scenario_curve 0 2 1 1]
    CalculatePathCost_end_l_penalty [OF res, of scenario_globals scenario_curve 0 2 0 1 1 2]
    scenario_path_cost res arg
  show ?thesis by auto
qed

text \<open>
  C4. For every ego sample \<open>(adc_s, adc_l)\<close> and every static boundary with
  \<open>start_l \<cdot> end_l \<le> 0\<close>, \<^verbatim>\<open>GetCostFromObsSL\<close> returns the zero cost: the safety cost is 0
  and the collision flag is not set. The penalty of two boxes of the dynamic path has no such
  case: it reads no boundary, and within the ignore distance it is the sum of its two terms.
\<close>

theorem GetCostFromObsSL_straddling_zero:
  "(bnd_start_l obs_sl_boundary * bnd_end_l obs_sl_boundary \<le> 0 \<longrightarrow>
      GetCostFromObsSL tc g adc_s adc_l obs_sl_boundary = ComparableCost_default \<and>
      safety_cost (GetCostFromObsSL tc g adc_s adc_l obs_sl_boundary) = 0 \<and>
      \<not> has_collision (GetCostFromObsSL tc g adc_s adc_l obs_sl_boundary)) \<and>
   (DistanceTo g obstacle_box ego_box \<le> obstacle_ignore_distance (tc_config tc) \<longrightarrow>
      safety_cost (GetCostBetweenObsBoxes tc g ego_box obstacle_box) =
        obstacle_collision_cost (tc_config tc) *
          Sigmoid g (obstacle_collision_distance (tc_config tc) -
                     DistanceTo g obstacle_box ego_box) +
        20 * Sigmoid g (obstacle_risk_distance (tc_config tc) -
                        DistanceTo g obstacle_box ego_box))"
  by (simp add: GetCostFromObsSL_def GetCostBetweenObsBoxes_def ComparableCost_default_def
      Let_def)

theorem GetCostFromObsSL_straddling_zero_witness:
  "bnd_start_l \<lparr>bnd_start_s = 2, bnd_end_s = 4, bnd_start_l = - 1, bnd_end_l = 1\<rparr> *
   bnd_end_l \<lparr>bnd_start_s = 2, bnd_end_s = 4, bnd_start_l = - 1, bnd_end_l = 1\<rparr> \<le> 0 \<and>
   GetCostFromObsSL scenario_tc scenario_globals 3 0
     \<lparr>bnd_start_s = 2, bnd_end_s = 4, bnd_start_l = - 1, bnd_end_l = 1\<rparr> =
     \<lparr>has_collision = False, out_of_boundary = False, smoothness_cost = 0, safety_cost = 0\<rparr> \<and>
   safety_cost (GetCostBetweenObsBoxes scenario_tc scenario_globals
     \<lparr>box_center = \<lparr>vec_x = 8, vec_y = 0\<rparr>, box_heading = 0, box_length = 5, box_width = 2\<rparr>
     \<lparr>box_center = \<lparr>vec_x = 10, vec_y = 0\<rparr>, box_heading = 0, box_length = 9 / 2,
      box_width = 5 / 2\<rparr>) = 8 / (1 + exp (3 / 2)) + 10"
  using GetCostFromObsSL_straddling_zero [where tc = scenario_tc and g = scenario_globals and
      adc_s = 3 and adc_l = 0 and
      obs_sl_boundary = "\<lparr>bnd_start_s = 2, bnd_end_s = 4, bnd_start_l = - 1, bnd_end_l = 1\<rparr>" and
      obstacle_box = "\<lparr>box_center = \<lparr>vec_x = 10, vec_y = 0\<rparr>, box_heading = 0,
        box_length = 9 / 2, box_width = 5 / 2\<rparr>" and
      ego_box = "\<lparr>box_center = \<lparr>vec_x = 8, vec_y = 0\<rparr>, box_heading = 0, box_length = 5,
        box_width = 2\<rparr>"]
  by (simp add: scenario_tc_def scenario_globals_def scenario_config_def
      ComparableCost_default_def)

text \<open>
  C5. In \<^verbatim>\<open>GetCostFromObsSL\<close>, for a boundary that is not degenerate
  (\<open>start_l \<cdot> end_l > 0\<close>) and laterally relevant, the collision flag is set exactly when the
  ego extents overlap the boundary longitudinally and, within the tolerance 0.1, laterally.
  The check comes before the exit for an obstacle behind the ego front edge: for such an
  obstacle the penalty is zero and the flag is still the overlap. With a positive sample
  resolution \<^verbatim>\<open>CalculateStaticObstacleCost\<close> returns, and its collision flag is set exactly
  when \<^verbatim>\<open>GetCostFromObsSL\<close> sets it at some sample station for some cached boundary.
\<close>

theorem GetCostFromObsSL_collision_flag:
  "(bnd_start_l obs_sl_boundary * bnd_end_l obs_sl_boundary > 0 \<and>
    laterally_relevant g adc_l obs_sl_boundary \<longrightarrow>
      has_collision (GetCostFromObsSL tc g adc_s adc_l obs_sl_boundary) =
        sl_overlap g adc_s adc_l obs_sl_boundary \<and>
      (adc_s + front_edge_to_center (VehicleConfigHelper_vehicle_param g) >
         bnd_end_s obs_sl_boundary \<longrightarrow>
       GetCostFromObsSL tc g adc_s adc_l obs_sl_boundary =
         \<lparr>has_collision = sl_overlap g adc_s adc_l obs_sl_boundary,
          out_of_boundary = False, smoothness_cost = 0, safety_cost = 0\<rparr>)) \<and>
   (0 < path_resolution (tc_config tc) \<longrightarrow>
      (\<exists>static_cost.
         CalculateStaticObstacleCost tc g curve start_s end_s = Some static_cost \<and>
         has_collision static_cost =
           (\<exists>(k::nat) b. start_s + real k * path_resolution (tc_config tc) \<le> end_s \<and>
              b \<in> set (tc_static_obstacle_sl_boundaries tc) \<and>
              has_collision (GetCostFromObsSL tc g
                (start_s + real k * path_resolution (tc_config tc))
                (curve 0 (start_s + real k * path_resolution (tc_config tc) - start_s)) b))))"
proof (intro conjI impI)
  assume "bnd_start_l obs_sl_boundary * bnd_end_l obs_sl_boundary > 0 \<and>
    laterally_relevant g adc_l obs_sl_boundary"
  then show "has_collision (GetCostFromObsSL tc g adc_s adc_l obs_sl_boundary) =
        sl_overlap g adc_s adc_l obs_sl_boundary"
    by (auto simp add: GetCostFromObsSL_def Let_def ComparableCost_default_def sl_overlap_def
        laterally_relevant_def not_less not_le)
next
  assume "bnd_start_l obs_sl_boundary * bnd_end_l obs_sl_boundary > 0 \<and>
    laterally_relevant g adc_l obs_sl_boundary"
    and "adc_s + front_edge_to_center (VehicleConfigHelper_vehicle_param g) >
         bnd_end_s obs_sl_boundary"
  then show "GetCostFromObsSL tc g adc_s adc_l obs_sl_boundary =
         \<lparr>has_collision = sl_overlap g adc_s adc_l obs_sl_boundary,
          out_of_boundary = False, smoothness_cost = 0, safety_cost = 0\<rparr>"
    by (auto simp add: GetCostFromObsSL_def Let_def ComparableCost_default_def sl_overlap_def
        laterally_relevant_def not_less not_le)
next
  assume res: "0 < path_resolution (tc_config tc)"
  show "\<exists>static_cost.
         CalculateStaticObstacleCost tc g curve start_s end_s = Some static_cost \<and>
         has_collision static_cost =
           (\<exists>(k::nat) b. start_s + real k * path_resolution (tc_config tc) \<le> end_s \<and>
              b \<in> set (tc_static_obstacle_sl_boundaries tc) \<and>
              has_collision (GetCostFromObsSL tc g
                (start_s + real k * path_resolution (tc_config tc))
                (curve 0 (start_s + real k * path_resolution (tc_config tc) - start_s)) b))"
    unfolding CalculateStaticObstacleCost_total [OF res] static_collision_at_def
    by auto
qed

theorem GetCostFromObsSL_collision_flag_witness:
  "bnd_start_l \<lparr>bnd_start_s = 2, bnd_end_s = 4, bnd_start_l = 1 / 2, bnd_end_l = 2\<rparr> *
   bnd_end_l \<lparr>bnd_start_s = 2, bnd_end_s = 4, bnd_start_l = 1 / 2, bnd_end_l = 2\<rparr> > 0 \<and>
   laterally_relevant scenario_globals (3 / 2)
     \<lparr>bnd_start_s = 2, bnd_end_s = 4, bnd_start_l = 1 / 2, bnd_end_l = 2\<rparr> \<and>
   sl_overlap scenario_globals 3 (3 / 2)
     \<lparr>bnd_start_s = 2, bnd_end_s = 4, bnd_start_l = 1 / 2, bnd_end_l = 2\<rparr> \<and>
   3 + front_edge_to_center (VehicleConfigHelper_vehicle_param scenario_globals) >
     bnd_end_s \<lparr>bnd_start_s = 2, bnd_end_s = 4, bnd_start_l = 1 / 2, bnd_end_l = 2\<rparr> \<and>
   GetCostFromObsSL scenario_tc scenario_globals 3 (3 / 2)
     \<lparr>bnd_start_s = 2, bnd_end_s = 4, bnd_start_l = 1 / 2, bnd_end_l = 2\<rparr> =
     \<lparr>has_collision = True, out_of_boundary = False, smoothness_cost = 0, safety_cost = 0\<rparr> \<and>
   0 < path_resolution (tc_config scenario_tc) \<and>
   CalculateStaticObstacleCost scenario_tc scenario_globals scenario_curve 0 2 =
     Some \<lparr>has_collision = True, out_of_boundary = False, smoothness_cost = 0,
           safety_cost = 8 / (1 + exp (- 2))\<rparr> \<and>
   (\<exists>(k::nat) b. 0 + real k * path_resolution (tc_config scenario_tc) \<le> 2 \<and>
      b \<in> set (tc_static_obstacle_sl_boundaries scenario_tc) \<and>
      has_collision (GetCostFromObsSL scenario_tc scenario_globals
        (0 + real k * path_resolution (tc_config scenario_tc))
        (scenario_curve 0 (0 + real k * path_resolution (tc_config scenario_tc) - 0)) b))"
proof -
  let ?b = "\<lparr>bnd_start_s = 2, bnd_end_s = 4, bnd_start_l = 1 / 2, bnd_end_l = 2\<rparr>"
  have nondeg: "bnd_start_l ?b * bnd_end_l ?b > 0" by simp
  have rel: "laterally_relevant scenario_globals (3 / 2) ?b"
    by (simp add: laterally_relevant_def scenario_globals_def scenario_vehicle_def)
  have ov: "sl_overlap scenario_globals 3 (3 / 2) ?b"
    by (simp add: sl_overlap_def scenario_globals_def scenario_vehicle_def)
  have behind: "3 + front_edge_to_center (VehicleConfigHelper_vehicle_param scenario_globals) >
      bnd_end_s ?b"
    by (simp add: scenario_globals_def scenario_vehicle_def)
  from GetCostFromObsSL_collision_flag [where tc = scenario_tc and g = scenario_globals and
      adc_s = 3 and adc_l = "3 / 2" and obs_sl_boundary = ?b, THEN conjunct1, rule_format,
      OF conjI [OF nondeg rel]] ov behind
  have "GetCostFromObsSL scenario_tc scenario_globals 3 (3 / 2) ?b =
     \<lparr>has_collision = True, out_of_boundary = False, smoothness_cost = 0, safety_cost = 0\<rparr>"
    by simp
  moreover
  have res: "0 < path_resolution (tc_config scenario_tc)"
    by (simp add: scenario_defs)
  from GetCostFromObsSL_collision_flag [where tc = scenario_tc and g = scenario_globals and
      curve = scenario_curve and start_s = 0 and end_s = 2, THEN conjunct2, rule_format,
      OF res] scenario_static_cost
  have "\<exists>(k::nat) b. 0 + real k * path_resolution (tc_config scenario_tc) \<le> 2 \<and>
      b \<in> set (tc_static_obstacle_sl_boundaries scenario_tc) \<and>
      has_collision (GetCostFromObsSL scenario_tc scenario_globals
        (0 + real k * path_resolution (tc_config scenario_tc))
        (scenario_curve 0 (0 + real k * path_resolution (tc_config scenario_tc) - 0)) b)"
    by auto
  ultimately show ?thesis using nondeg rel ov behind res scenario_static_cost by blast
qed

text \<open>
  C6. When every cached trajectory has a footprint for every time index below
  \<open>num_of_time_stamps\<close>, as in every engine that the constructor returns,
  \<^verbatim>\<open>CalculateDynamicObstacleCost\<close> returns the cost without flags whose
  safety cost is the sum, over the evaluated steps \<open>i\<close> among \<open>0, \<dots>, num_of_time_stamps - 1\<close>,
  of the penalties of the ego footprint at step \<open>i\<close> against the footprint with the same
  index \<open>i\<close> of every cached trajectory, multiplied by \<open>eval_time_interval \<cdot> 10\<^sup>-\<^sup>6\<close>. The time
  of step \<open>i\<close> is \<open>i \<cdot> eval_time_interval\<close> and the ego station is the station of the speed
  profile at that time plus the initial station; the evaluated steps are those before the
  first step whose station exceeds \<open>end_s\<close>, without the steps whose station is below
  \<open>start_s\<close>.
\<close>

theorem CalculateDynamicObstacleCost_time_aligned:
  assumes "\<forall>obstacle_trajectory \<in> set (tc_dynamic_obstacle_boxes tc).
      unat (tc_num_of_time_stamps tc) \<le> length obstacle_trajectory"
  shows "CalculateDynamicObstacleCost tc g curve start_s end_s =
     Inr \<lparr>has_collision = False, out_of_boundary = False, smoothness_cost = 0,
          safety_cost =
            (\<Sum>i\<leftarrow>filter (\<lambda>i. \<not> ego_station tc i < start_s)
                   (takeWhile (\<lambda>i. \<not> ego_station tc i > end_s)
                      [0..<unat (tc_num_of_time_stamps tc)]).
               \<Sum>obstacle_trajectory\<leftarrow>tc_dynamic_obstacle_boxes tc.
                 safety_cost (GetCostBetweenObsBoxes tc g (ego_box_at tc g curve start_s i)
                                (obstacle_trajectory ! i))) *
            (eval_time_interval (tc_config tc) * (1 / 10 ^ 6))\<rparr>"
  using CalculateDynamicObstacleCost_eq [OF assms, of g curve start_s end_s]
  by (simp add: evaluated_steps_def dynamic_step_cost_def)

theorem CalculateDynamicObstacleCost_time_aligned_witness:
  "TrajectoryCost_new scenario_globals scenario_config scenario_reference_line False
     [scenario_parked, scenario_moving] scenario_vehicle scenario_speed_data
     scenario_init_sl_point scenario_adc_sl_boundary = Some scenario_tc \<and>
   unat (tc_num_of_time_stamps scenario_tc) = 2 \<and>
   map length (tc_dynamic_obstacle_boxes scenario_tc) = [3] \<and>
   CalculateDynamicObstacleCost scenario_tc scenario_globals scenario_curve 0 2 =
     Inr \<lparr>has_collision = False, out_of_boundary = False, smoothness_cost = 0,
          safety_cost = (8 / (1 + exp (19 / 2)) + 20 / (1 + exp 8) +
                         (8 / (1 + exp 9) + 20 / (1 + exp (15 / 2)))) *
                        (1 / 2 * (1 / 10 ^ 6))\<rparr> \<and>
   (\<Sum>i\<leftarrow>filter (\<lambda>i. \<not> ego_station scenario_tc i < 0)
          (takeWhile (\<lambda>i. \<not> ego_station scenario_tc i > 2)
             [0..<unat (tc_num_of_time_stamps scenario_tc)]).
      \<Sum>obstacle_trajectory\<leftarrow>tc_dynamic_obstacle_boxes scenario_tc.
        safety_cost (GetCostBetweenObsBoxes scenario_tc scenario_globals
                       (ego_box_at scenario_tc scenario_globals scenario_curve 0 i)
                       (obstacle_trajectory ! i))) *
   (eval_time_interval (tc_config scenario_tc) * (1 / 10 ^ 6)) =
     (8 / (1 + exp (19 / 2)) + 20 / (1 + exp 8) +
      (8 / (1 + exp 9) + 20 / (1 + exp (15 / 2)))) * (1 / 2 * (1 / 10 ^ 6))"
proof -
  have inv: "\<forall>obstacle_trajectory \<in> set (tc_dynamic_obstacle_boxes scenario_tc).
      unat (tc_num_of_time_stamps scenario_tc) \<le> length obstacle_trajectory"
    by (rule TrajectoryCost_new_invariant [OF scenario_new])
  let ?spec = "(\<Sum>i\<leftarrow>filter (\<lambda>i. \<not> ego_station scenario_tc i < 0)
          (takeWhile (\<lambda>i. \<not> ego_station scenario_tc i > 2)
             [0..<unat (tc_num_of_time_stamps scenario_tc)]).
      \<Sum>obstacle_trajectory\<leftarrow>tc_dynamic_obstacle_boxes scenario_tc.
        safety_cost (GetCostBetweenObsBoxes scenario_tc scenario_globals
                       (ego_box_at scenario_tc scenario_globals scenario_curve 0 i)
                       (obstacle_trajectory ! i))) *
   (eval_time_interval (tc_config scenario_tc) * (1 / 10 ^ 6))"
  let ?number = "(8 / (1 + exp (19 / 2)) + 20 / (1 + exp 8) +
      (8 / (1 + exp 9) + 20 / (1 + exp (15 / 2)))) * (1 / 2 * (1 / 10 ^ 6))"
  have "Inr \<lparr>has_collision = False, out_of_boundary = False, smoothness_cost = 0,
          safety_cost = ?spec\<rparr> =
        (Inr \<lparr>has_collision = False, out_of_boundary = False, smoothness_cost = 0,
          safety_cost = ?number\<rparr> :: error + ComparableCost)"
    by (rule trans [OF CalculateDynamicObstacleCost_time_aligned
          [OF inv, of scenario_globals scenario_curve 0 2, symmetric] scenario_dynamic_cost])
  then have "?spec = ?number"
    by (simp only: sum.inject ComparableCost.ext_inject simp_thms)
  moreover have "unat (tc_num_of_time_stamps scenario_tc) = 2"
    and "map length (tc_dynamic_obstacle_boxes scenario_tc) = [3]"
    by (simp_all add: scenario_tc_def)
  ultimately show ?thesis using scenario_dynamic_cost scenario_new by blast
qed

text \<open>
  C7. The construction returns when \<open>eval_time_interval\<close> is not zero and
  \<open>floor(min(total time of the speed profile, prediction time) / eval_time_interval)\<close> is at
  least 0 and below \<open>2\<^sup>3\<^sup>2 - 1\<close>. After every construction that returns,
  \<open>num_of_time_stamps\<close> is that floor, the dynamic cache holds one trajectory for each kept
  dynamic obstacle, in the order of the obstacles, every trajectory has exactly
  \<open>num_of_time_stamps + 1\<close> footprints, and the footprint with index \<open>t\<close> is the bounding box of
  the obstacle at the time \<open>t \<cdot> eval_time_interval\<close> with length and width expanded by 0.5.
  No method of the source other than the constructor assigns a member, so the evaluation
  functions take the engine and return a cost only: both caches stay as they were built.
\<close>

theorem TrajectoryCost_new_caches:
  "(eval_time_interval config \<noteq> 0 \<and>
    0 \<le> \<lfloor>min (TotalTime heuristic_speed_data) (FLAGS_prediction_total_time g) /
          eval_time_interval config\<rfloor> \<and>
    \<lfloor>min (TotalTime heuristic_speed_data) (FLAGS_prediction_total_time g) /
     eval_time_interval config\<rfloor> < 2 ^ 32 - 1 \<longrightarrow>
    (\<exists>tc. TrajectoryCost_new g config reference_line is_change_lane_path obstacles
            vehicle_param heuristic_speed_data init_sl_point adc_sl_boundary = Some tc)) \<and>
   (\<forall>tc. TrajectoryCost_new g config reference_line is_change_lane_path obstacles
            vehicle_param heuristic_speed_data init_sl_point adc_sl_boundary = Some tc \<longrightarrow>
      int (unat (tc_num_of_time_stamps tc)) =
        \<lfloor>min (TotalTime heuristic_speed_data) (FLAGS_prediction_total_time g) /
         eval_time_interval config\<rfloor> \<and>
      tc_dynamic_obstacle_boxes tc =
        map (\<lambda>ob. map (expanded_box_at config ob) [0..<unat (tc_num_of_time_stamps tc) + 1])
          (filter (\<lambda>ob. obstacle_kept g init_sl_point vehicle_param ob \<and> \<not> obstacle_static ob)
             obstacles) \<and>
      tc_static_obstacle_sl_boundaries tc =
        map PerceptionSLBoundary
          (filter (\<lambda>ob. obstacle_kept g init_sl_point vehicle_param ob \<and> obstacle_static ob)
             obstacles) \<and>
      (\<forall>obstacle_trajectory \<in> set (tc_dynamic_obstacle_boxes tc).
         length obstacle_trajectory = unat (tc_num_of_time_stamps tc) + 1 \<and>
         (\<exists>ob \<in> set obstacles. \<forall>t \<le> unat (tc_num_of_time_stamps tc).
            obstacle_trajectory ! t = expanded_box_at config ob t \<and>
            box_length (obstacle_trajectory ! t) =
              box_length (GetBoundingBox ob
                (GetPointAtTime ob (real t * eval_time_interval config))) + 0.5 \<and>
            box_width (obstacle_trajectory ! t) =
              box_width (GetBoundingBox ob
                (GetPointAtTime ob (real t * eval_time_interval config))) + 0.5)))"
proof (intro conjI impI allI)
  assume "eval_time_interval config \<noteq> 0 \<and>
    0 \<le> \<lfloor>min (TotalTime heuristic_speed_data) (FLAGS_prediction_total_time g) /
          eval_time_interval config\<rfloor> \<and>
    \<lfloor>min (TotalTime heuristic_speed_data) (FLAGS_prediction_total_time g) /
     eval_time_interval config\<rfloor> < 2 ^ 32 - 1"
  then show "\<exists>tc. TrajectoryCost_new g config reference_line is_change_lane_path obstacles
            vehicle_param heuristic_speed_data init_sl_point adc_sl_boundary = Some tc"
    by (intro TrajectoryCost_new_total) simp_all
next
  fix tc
  assume new: "TrajectoryCost_new g config reference_line is_change_lane_path obstacles
            vehicle_param heuristic_speed_data init_sl_point adc_sl_boundary = Some tc"
  note v = TrajectoryCost_new_value [OF new]
  show "int (unat (tc_num_of_time_stamps tc)) =
        \<lfloor>min (TotalTime heuristic_speed_data) (FLAGS_prediction_total_time g) /
         eval_time_interval config\<rfloor>" by (rule v(1))
  show "tc_static_obstacle_sl_boundaries tc =
        map PerceptionSLBoundary
          (filter (\<lambda>ob. obstacle_kept g init_sl_point vehicle_param ob \<and> obstacle_static ob)
             obstacles)" by (rule v(2))
  show dyn: "tc_dynamic_obstacle_boxes tc =
        map (\<lambda>ob. map (expanded_box_at config ob) [0..<unat (tc_num_of_time_stamps tc) + 1])
          (filter (\<lambda>ob. obstacle_kept g init_sl_point vehicle_param ob \<and> \<not> obstacle_static ob)
             obstacles)" by (rule v(3))
  show "\<forall>obstacle_trajectory \<in> set (tc_dynamic_obstacle_boxes tc).
         length obstacle_trajectory = unat (tc_num_of_time_stamps tc) + 1 \<and>
         (\<exists>ob \<in> set obstacles. \<forall>t \<le> unat (tc_num_of_time_stamps tc).
            obstacle_trajectory ! t = expanded_box_at config ob t \<and>
            box_length (obstacle_trajectory ! t) =
              box_length (GetBoundingBox ob
                (GetPointAtTime ob (real t * eval_time_interval config))) + 0.5 \<and>
            box_width (obstacle_trajectory ! t) =
              box_width (GetBoundingBox ob
                (GetPointAtTime ob (real t * eval_time_interval config))) + 0.5)"
  proof
    fix obstacle_trajectory
    assume "obstacle_trajectory \<in> set (tc_dynamic_obstacle_boxes tc)"
    with dyn obtain ob where ob: "ob \<in> set obstacles"
      and traj: "obstacle_trajectory =
        map (expanded_box_at config ob) [0..<unat (tc_num_of_time_stamps tc) + 1]"
      by auto
    have len: "length obstacle_trajectory = unat (tc_num_of_time_stamps tc) + 1"
      unfolding traj by simp
    have "\<forall>t \<le> unat (tc_num_of_time_stamps tc).
            obstacle_trajectory ! t = expanded_box_at config ob t \<and>
            box_length (obstacle_trajectory ! t) =
              box_length (GetBoundingBox ob
                (GetPointAtTime ob (real t * eval_time_interval config))) + 0.5 \<and>
            box_width (obstacle_trajectory ! t) =
              box_width (GetBoundingBox ob
                (GetPointAtTime ob (real t * eval_time_interval config))) + 0.5"
    proof (intro allI impI)
      fix t assume "t \<le> unat (tc_num_of_time_stamps tc)"
      then have "obstacle_trajectory ! t = expanded_box_at config ob t"
        unfolding traj by (simp add: nth_map_upt del: upt_Suc)
      then show "obstacle_trajectory ! t = expanded_box_at config ob t \<and>
            box_length (obstacle_trajectory ! t) =
              box_length (GetBoundingBox ob
                (GetPointAtTime ob (real t * eval_time_interval config))) + 0.5 \<and>
            box_width (obstacle_trajectory ! t) =
              box_width (GetBoundingBox ob
                (GetPointAtTime ob (real t * eval_time_interval config))) + 0.5"
        by (simp add: expanded_box_at_def Let_def)
    qed
    with ob len show "length obstacle_trajectory = unat (tc_num_of_time_stamps tc) + 1 \<and>
         (\<exists>ob \<in> set obstacles. \<forall>t \<le> unat (tc_num_of_time_stamps tc).
            obstacle_trajectory ! t = expanded_box_at config ob t \<and>
            box_length (obstacle_trajectory ! t) =
              box_length (GetBoundingBox ob
                (GetPointAtTime ob (real t * eval_time_interval config))) + 0.5 \<and>
            box_width (obstacle_trajectory ! t) =
              box_width (GetBoundingBox ob
                (GetPointAtTime ob (real t * eval_time_interval config))) + 0.5)"
      by blast
  qed
qed

theorem TrajectoryCost_new_caches_witness:
  "eval_time_interval scenario_config \<noteq> 0 \<and>
   0 \<le> \<lfloor>min (TotalTime scenario_speed_data) (FLAGS_prediction_total_time scenario_globals) /
         eval_time_interval scenario_config\<rfloor> \<and>
   \<lfloor>min (TotalTime scenario_speed_data) (FLAGS_prediction_total_time scenario_globals) /
    eval_time_interval scenario_config\<rfloor> < 2 ^ 32 - 1 \<and>
   TrajectoryCost_new scenario_globals scenario_config scenario_reference_line False
     [scenario_parked, scenario_moving] scenario_vehicle scenario_speed_data
     scenario_init_sl_point scenario_adc_sl_boundary = Some scenario_tc \<and>
   int (unat (tc_num_of_time_stamps scenario_tc)) =
     \<lfloor>min (TotalTime scenario_speed_data) (FLAGS_prediction_total_time scenario_globals) /
      eval_time_interval scenario_config\<rfloor> \<and>
   tc_dynamic_obstacle_boxes scenario_tc =
     map (\<lambda>ob. map (expanded_box_at scenario_config ob)
                  [0..<unat (tc_num_of_time_stamps scenario_tc) + 1])
       (filter (\<lambda>ob. obstacle_kept scenario_globals scenario_init_sl_point scenario_vehicle ob \<and>
                     \<not> obstacle_static ob) [scenario_parked, scenario_moving]) \<and>
   map length (tc_dynamic_obstacle_boxes scenario_tc) =
     [unat (tc_num_of_time_stamps scenario_tc) + 1]"
proof -
  have range: "eval_time_interval scenario_config \<noteq> 0 \<and>
      0 \<le> \<lfloor>min (TotalTime scenario_speed_data) (FLAGS_prediction_total_time scenario_globals) /
            eval_time_interval scenario_config\<rfloor> \<and>
      \<lfloor>min (TotalTime scenario_speed_data) (FLAGS_prediction_total_time scenario_globals) /
       eval_time_interval scenario_config\<rfloor> < 2 ^ 32 - 1"
    by (simp add: scenario_defs)
  note caches = TrajectoryCost_new_caches [where g = scenario_globals and
      config = scenario_config and reference_line = scenario_reference_line and
      is_change_lane_path = False and obstacles = "[scenario_parked, scenario_moving]" and
      vehicle_param = scenario_vehicle and heuristic_speed_data = scenario_speed_data and
      init_sl_point = scenario_init_sl_point and adc_sl_boundary = scenario_adc_sl_boundary]
  note inv = caches [THEN conjunct2, THEN spec, THEN mp, OF scenario_new]
  have "hd (tc_dynamic_obstacle_boxes scenario_tc) \<in> set (tc_dynamic_obstacle_boxes scenario_tc)"
    by (simp add: scenario_tc_def)
  with inv have "length (hd (tc_dynamic_obstacle_boxes scenario_tc)) =
      unat (tc_num_of_time_stamps scenario_tc) + 1"
    by blast
  moreover have "map length (tc_dynamic_obstacle_boxes scenario_tc) =
      [length (hd (tc_dynamic_obstacle_boxes scenario_tc))]"
    by (simp add: scenario_tc_def)
  ultimately have "map length (tc_dynamic_obstacle_boxes scenario_tc) =
     [unat (tc_num_of_time_stamps scenario_tc) + 1]"
    by simp
  with inv range scenario_new show ?thesis by blast
qed

text \<open>
  C8, as the specification states it, fails: the weight of the risk term is not configured.
  With the risk weight 1 and two boxes at the risk distance 2 the specification gives
  the risk term 1/2, and the code gives 10.
\<close>

theorem GetCostBetweenObsBoxes_risk_weight_counterexample:
  "safety_cost (GetCostBetweenObsBoxes scenario_tc scenario_globals
     \<lparr>box_center = \<lparr>vec_x = 8, vec_y = 0\<rparr>, box_heading = 0, box_length = 5, box_width = 2\<rparr>
     \<lparr>box_center = \<lparr>vec_x = 10, vec_y = 0\<rparr>, box_heading = 0, box_length = 9 / 2,
      box_width = 5 / 2\<rparr>) \<noteq>
   safety_cost (GetCostBetweenObsBoxes_spec scenario_tc scenario_globals 1
     \<lparr>box_center = \<lparr>vec_x = 8, vec_y = 0\<rparr>, box_heading = 0, box_length = 5, box_width = 2\<rparr>
     \<lparr>box_center = \<lparr>vec_x = 10, vec_y = 0\<rparr>, box_heading = 0, box_length = 9 / 2,
      box_width = 5 / 2\<rparr>)"
  by (simp add: GetCostBetweenObsBoxes_def GetCostBetweenObsBoxes_spec_def
      ComparableCost_default_def scenario_tc_def scenario_globals_def scenario_config_def)

text \<open>
  C8, amended. \<^verbatim>\<open>GetCostBetweenObsBoxes\<close> returns the zero cost when the distance \<open>d\<close> of
  the two footprints exceeds the configured ignore distance, and otherwise the safety cost
  \<open>collision_weight \<cdot> sigmoid(collision_distance - d) + 20 \<cdot> sigmoid(risk_distance - d)\<close>: both
  distances and the collision weight are configured, the weight 20 of the risk term is fixed.
\<close>

theorem GetCostBetweenObsBoxes_fixed_risk_weight:
  "(DistanceTo g obstacle_box ego_box > obstacle_ignore_distance (tc_config tc) \<longrightarrow>
      GetCostBetweenObsBoxes tc g ego_box obstacle_box = ComparableCost_default) \<and>
   (\<not> DistanceTo g obstacle_box ego_box > obstacle_ignore_distance (tc_config tc) \<longrightarrow>
      GetCostBetweenObsBoxes tc g ego_box obstacle_box =
        \<lparr>has_collision = False, out_of_boundary = False, smoothness_cost = 0,
         safety_cost =
           obstacle_collision_cost (tc_config tc) *
             Sigmoid g (obstacle_collision_distance (tc_config tc) -
                        DistanceTo g obstacle_box ego_box) +
           20 * Sigmoid g (obstacle_risk_distance (tc_config tc) -
                           DistanceTo g obstacle_box ego_box)\<rparr> \<and>
      GetCostBetweenObsBoxes tc g ego_box obstacle_box =
        GetCostBetweenObsBoxes_spec tc g 20 ego_box obstacle_box)"
  by (simp add: GetCostBetweenObsBoxes_def GetCostBetweenObsBoxes_spec_def
      ComparableCost_default_def Let_def)

theorem GetCostBetweenObsBoxes_fixed_risk_weight_witness:
  "DistanceTo scenario_globals
     \<lparr>box_center = \<lparr>vec_x = 40, vec_y = 0\<rparr>, box_heading = 0, box_length = 9 / 2,
      box_width = 5 / 2\<rparr>
     \<lparr>box_center = \<lparr>vec_x = 8, vec_y = 0\<rparr>, box_heading = 0, box_length = 5, box_width = 2\<rparr>
     > obstacle_ignore_distance (tc_config scenario_tc) \<and>
   GetCostBetweenObsBoxes scenario_tc scenario_globals
     \<lparr>box_center = \<lparr>vec_x = 8, vec_y = 0\<rparr>, box_heading = 0, box_length = 5, box_width = 2\<rparr>
     \<lparr>box_center = \<lparr>vec_x = 40, vec_y = 0\<rparr>, box_heading = 0, box_length = 9 / 2,
      box_width = 5 / 2\<rparr> =
     \<lparr>has_collision = False, out_of_boundary = False, smoothness_cost = 0, safety_cost = 0\<rparr> \<and>
   \<not> DistanceTo scenario_globals
     \<lparr>box_center = \<lparr>vec_x = 10, vec_y = 0\<rparr>, box_heading = 0, box_length = 9 / 2,
      box_width = 5 / 2\<rparr>
     \<lparr>box_center = \<lparr>vec_x = 8, vec_y = 0\<rparr>, box_heading = 0, box_length = 5, box_width = 2\<rparr>
     > obstacle_ignore_distance (tc_config scenario_tc) \<and>
   GetCostBetweenObsBoxes scenario_tc scenario_globals
     \<lparr>box_center = \<lparr>vec_x = 8, vec_y = 0\<rparr>, box_heading = 0, box_length = 5, box_width = 2\<rparr>
     \<lparr>box_center = \<lparr>vec_x = 10, vec_y = 0\<rparr>, box_heading = 0, box_length = 9 / 2,
      box_width = 5 / 2\<rparr> =
     \<lparr>has_collision = False, out_of_boundary = False, smoothness_cost = 0,
      safety_cost = 8 / (1 + exp (3 / 2)) + 10\<rparr>"
  using
    GetCostBetweenObsBoxes_fixed_risk_weight [where tc = scenario_tc and g = scenario_globals and
      ego_box = "\<lparr>box_center = \<lparr>vec_x = 8, vec_y = 0\<rparr>, box_heading = 0, box_length = 5,
        box_width = 2\<rparr>" and
      obstacle_box = "\<lparr>box_center = \<lparr>vec_x = 40, vec_y = 0\<rparr>, box_heading = 0,
        box_length = 9 / 2, box_width = 5 / 2\<rparr>"]
    GetCostBetweenObsBoxes_fixed_risk_weight [where tc = scenario_tc and g = scenario_globals and
      ego_box = "\<lparr>box_center = \<lparr>vec_x = 8, vec_y = 0\<rparr>, box_heading = 0, box_length = 5,
        box_width = 2\<rparr>" and
      obstacle_box = "\<lparr>box_center = \<lparr>vec_x = 10, vec_y = 0\<rparr>, box_heading = 0,
        box_length = 9 / 2, box_width = 5 / 2\<rparr>"]
  by (simp add: scenario_tc_def scenario_globals_def scenario_config_def
      ComparableCost_default_def)

text \<open>
  C9. The comparison of two costs is a total lexicographic order: a cost with the collision
  flag compares worse than one without it, whatever the other fields; with equal collision
  flags, a cost with the out-of-boundary flag compares worse than one without it; with both
  flags equal the order is that of the sums \<open>smoothness_cost + safety_cost\<close>. The relation
  is irreflexive, transitive and asymmetric, and two costs are related one way or the other
  unless they agree on both flags and on the sum.
\<close>

theorem cost_worse_lexicographic:
  "(has_collision a \<and> \<not> has_collision b \<longrightarrow> cost_worse a b) \<and>
   (has_collision a = has_collision b \<and> out_of_boundary a \<and> \<not> out_of_boundary b \<longrightarrow>
      cost_worse a b) \<and>
   (has_collision a = has_collision b \<and> out_of_boundary a = out_of_boundary b \<longrightarrow>
      cost_worse a b =
        (smoothness_cost a + safety_cost a > smoothness_cost b + safety_cost b)) \<and>
   \<not> cost_worse a a \<and>
   (cost_worse a b \<longrightarrow> cost_worse b c \<longrightarrow> cost_worse a c) \<and>
   (cost_worse a b \<longrightarrow> \<not> cost_worse b a) \<and>
   (cost_worse a b \<or> cost_worse b a \<or> cost_equiv a b)"
  unfolding cost_worse_def cost_equiv_def
  by (auto split: if_splits)

theorem cost_worse_lexicographic_witness:
  "cost_worse
     \<lparr>has_collision = True, out_of_boundary = False, smoothness_cost = 0, safety_cost = 0\<rparr>
     \<lparr>has_collision = False, out_of_boundary = True, smoothness_cost = 100, safety_cost = 100\<rparr> \<and>
   cost_worse
     \<lparr>has_collision = False, out_of_boundary = True, smoothness_cost = 100, safety_cost = 100\<rparr>
     \<lparr>has_collision = False, out_of_boundary = False, smoothness_cost = 500, safety_cost = 1\<rparr> \<and>
   cost_worse
     \<lparr>has_collision = True, out_of_boundary = False, smoothness_cost = 0, safety_cost = 0\<rparr>
     \<lparr>has_collision = False, out_of_boundary = False, smoothness_cost = 500, safety_cost = 1\<rparr> \<and>
   \<not> cost_worse
     \<lparr>has_collision = False, out_of_boundary = True, smoothness_cost = 100, safety_cost = 100\<rparr>
     \<lparr>has_collision = True, out_of_boundary = False, smoothness_cost = 0, safety_cost = 0\<rparr>"
  using
    cost_worse_lexicographic [of
      "\<lparr>has_collision = True, out_of_boundary = False, smoothness_cost = 0, safety_cost = 0\<rparr>"
      "\<lparr>has_collision = False, out_of_boundary = True, smoothness_cost = 100,
        safety_cost = 100\<rparr>"
      "\<lparr>has_collision = False, out_of_boundary = False, smoothness_cost = 500,
        safety_cost = 1\<rparr>"]
    cost_worse_lexicographic [of
      "\<lparr>has_collision = False, out_of_boundary = True, smoothness_cost = 100,
        safety_cost = 100\<rparr>"
      "\<lparr>has_collision = False, out_of_boundary = False, smoothness_cost = 500,
        safety_cost = 1\<rparr>"
      "\<lparr>has_collision = False, out_of_boundary = False, smoothness_cost = 500,
        safety_cost = 1\<rparr>"]
  by simp

text \<open>
  C10. The penalty of two boxes sets no flag, so the cost that
  \<^verbatim>\<open>CalculateDynamicObstacleCost\<close> returns has neither the collision flag nor the
  out-of-boundary flag. In the result of \<^verbatim>\<open>Calculate\<close> the collision flag comes from the
  overlap check of \<^verbatim>\<open>GetCostFromObsSL\<close> at a sample station of the static cost against a
  cached boundary, and the out-of-boundary flag from the off-road check at a sample station of
  the path cost.
\<close>

theorem Calculate_flag_origins:
  "\<not> has_collision (GetCostBetweenObsBoxes tc g ego_box obstacle_box) \<and>
   \<not> out_of_boundary (GetCostBetweenObsBoxes tc g ego_box obstacle_box) \<and>
   (CalculateDynamicObstacleCost tc g curve start_s end_s = Inr d \<longrightarrow>
      \<not> has_collision d \<and> \<not> out_of_boundary d) \<and>
   (Calculate tc g curve start_s end_s curr_level total_level = Some (Inr c) \<longrightarrow>
      (has_collision c \<longrightarrow>
         (\<exists>(k::nat) b. start_s + real k * path_resolution (tc_config tc) \<le> end_s \<and>
            b \<in> set (tc_static_obstacle_sl_boundaries tc) \<and>
            has_collision (GetCostFromObsSL tc g
              (start_s + real k * path_resolution (tc_config tc))
              (curve 0 (start_s + real k * path_resolution (tc_config tc) - start_s)) b))) \<and>
      (out_of_boundary c \<longrightarrow>
         (\<exists>k::nat. real k * path_resolution (tc_config tc) < end_s - start_s \<and>
            IsOffRoad tc g (real k * path_resolution (tc_config tc) + start_s)
              (curve 0 (real k * path_resolution (tc_config tc)))
              \<bar>curve 1 (real k * path_resolution (tc_config tc))\<bar>
              (tc_is_change_lane_path tc))))"
proof (intro conjI impI)
  show "\<not> has_collision (GetCostBetweenObsBoxes tc g ego_box obstacle_box)"
    and "\<not> out_of_boundary (GetCostBetweenObsBoxes tc g ego_box obstacle_box)"
    by (simp_all add: GetCostBetweenObsBoxes_frame)
next
  assume "CalculateDynamicObstacleCost tc g curve start_s end_s = Inr d"
  from CalculateDynamicObstacleCost_frame [OF this]
  show "\<not> has_collision d" and "\<not> out_of_boundary d" by simp_all
next
  assume calc: "Calculate tc g curve start_s end_s curr_level total_level = Some (Inr c)"
    and hc: "has_collision c"
  from Calculate_parts [OF calc] obtain p s d where
    p: "CalculatePathCost tc g curve start_s end_s curr_level total_level = Some p"
    and s: "CalculateStaticObstacleCost tc g curve start_s end_s = Some s"
    and d: "CalculateDynamicObstacleCost tc g curve start_s end_s = Inr d"
    and c: "c = cost_add (cost_add (cost_add ComparableCost_default p) s) d" by blast
  from hc c CalculatePathCost_flags(1) [OF p] CalculateDynamicObstacleCost_frame [OF d]
  have "has_collision s" by (simp add: cost_add_def ComparableCost_default_def)
  with CalculateStaticObstacleCost_flags(2) [OF s]
  show "\<exists>(k::nat) b. start_s + real k * path_resolution (tc_config tc) \<le> end_s \<and>
            b \<in> set (tc_static_obstacle_sl_boundaries tc) \<and>
            has_collision (GetCostFromObsSL tc g
              (start_s + real k * path_resolution (tc_config tc))
              (curve 0 (start_s + real k * path_resolution (tc_config tc) - start_s)) b)"
    unfolding static_collision_at_def by blast
next
  assume calc: "Calculate tc g curve start_s end_s curr_level total_level = Some (Inr c)"
    and ob: "out_of_boundary c"
  from Calculate_parts [OF calc] obtain p s d where
    p: "CalculatePathCost tc g curve start_s end_s curr_level total_level = Some p"
    and s: "CalculateStaticObstacleCost tc g curve start_s end_s = Some s"
    and d: "CalculateDynamicObstacleCost tc g curve start_s end_s = Inr d"
    and c: "c = cost_add (cost_add (cost_add ComparableCost_default p) s) d" by blast
  from ob c CalculateStaticObstacleCost_flags(1) [OF s] CalculateDynamicObstacleCost_frame [OF d]
  have "out_of_boundary p" by (simp add: cost_add_def ComparableCost_default_def)
  with CalculatePathCost_flags(2) [OF p]
  show "\<exists>k::nat. real k * path_resolution (tc_config tc) < end_s - start_s \<and>
            IsOffRoad tc g (real k * path_resolution (tc_config tc) + start_s)
              (curve 0 (real k * path_resolution (tc_config tc)))
              \<bar>curve 1 (real k * path_resolution (tc_config tc))\<bar>
              (tc_is_change_lane_path tc)"
    unfolding off_road_at_def by blast
qed

theorem Calculate_flag_origins_witness:
  "CalculateDynamicObstacleCost scenario_tc scenario_globals scenario_curve 0 2 =
     Inr \<lparr>has_collision = False, out_of_boundary = False, smoothness_cost = 0,
          safety_cost = (8 / (1 + exp (19 / 2)) + 20 / (1 + exp 8) +
                         (8 / (1 + exp 9) + 20 / (1 + exp (15 / 2)))) *
                        (1 / 2 * (1 / 10 ^ 6))\<rparr> \<and>
   (\<exists>c. Calculate scenario_tc scenario_globals scenario_curve 0 2 1 1 = Some (Inr c) \<and>
        has_collision c \<and> \<not> out_of_boundary c) \<and>
   (\<exists>(k::nat) b. 0 + real k * path_resolution (tc_config scenario_tc) \<le> 2 \<and>
      b \<in> set (tc_static_obstacle_sl_boundaries scenario_tc) \<and>
      has_collision (GetCostFromObsSL scenario_tc scenario_globals
        (0 + real k * path_resolution (tc_config scenario_tc))
        (scenario_curve 0 (0 + real k * path_resolution (tc_config scenario_tc) - 0)) b))"
proof -
  let ?c = "\<lparr>has_collision = True, out_of_boundary = False, smoothness_cost = 83 / 20,
        safety_cost = 8 / (1 + exp (- 2)) +
          (8 / (1 + exp (19 / 2)) + 20 / (1 + exp 8) +
           (8 / (1 + exp 9) + 20 / (1 + exp (15 / 2)))) * (1 / 2 * (1 / 10 ^ 6))\<rparr>"
  have calc: "Calculate scenario_tc scenario_globals scenario_curve 0 2 1 1 = Some (Inr ?c)"
    by (rule scenario_calculate)
  from Calculate_flag_origins [where tc = scenario_tc and g = scenario_globals and
      curve = scenario_curve and start_s = 0 and end_s = 2 and curr_level = 1 and
      total_level = 1 and c = ?c] calc
  have "\<exists>(k::nat) b. 0 + real k * path_resolution (tc_config scenario_tc) \<le> 2 \<and>
      b \<in> set (tc_static_obstacle_sl_boundaries scenario_tc) \<and>
      has_collision (GetCostFromObsSL scenario_tc scenario_globals
        (0 + real k * path_resolution (tc_config scenario_tc))
        (scenario_curve 0 (0 + real k * path_resolution (tc_config scenario_tc) - 0)) b)"
    by simp
  with calc scenario_dynamic_cost show ?thesis by simp
qed

end
